theory Spec2Isabelle
  imports Main "HOL-Library.Char_ord" "HOL-Library.List_Lexorder" "HOL-Library.Multiset"
begin

section \<open>Strings\<close>

text \<open>
  JavaScript strings are modelled as \<^typ>\<open>string\<close>: a list of code units, compared
  unit by unit; only the code units below 256 are represented. The order on strings (the
  one \<open>Array.prototype.sort\<close> uses by default) is the lexicographic order of
  \<open>List_Lexorder\<close> over the order of \<open>Char_ord\<close>.
\<close>

text \<open>
  Lower case for the letters \<open>A\<close> to \<open>Z\<close>, the way header names are matched. The one
  string the program itself lower-cases is the digest, whose letters are hexadecimal
  digits.
\<close>

definition toLowerCase :: "string \<Rightarrow> string" where
  "toLowerCase s =
     map (\<lambda>c. if CHR ''A'' \<le> c \<and> c \<le> CHR ''Z'' then char_of (of_char c + (32::nat)) else c) s"

fun startsWith :: "string \<Rightarrow> string \<Rightarrow> bool" where
  "startsWith s [] = True"
| "startsWith [] (p # ps) = False"
| "startsWith (c # cs) (p # ps) = (c = p \<and> startsWith cs ps)"

text \<open>\<open>s.includes(p)\<close>: \<open>p\<close> occurs in \<open>s\<close> as a contiguous substring.\<close>

fun str_includes :: "string \<Rightarrow> string \<Rightarrow> bool" where
  "str_includes [] p = (p = [])"
| "str_includes (c # cs) p = (startsWith (c # cs) p \<or> str_includes cs p)"

text \<open>\<open>s?.includes(p)\<close> on a string that may be \<open>null\<close>.\<close>

fun opt_includes :: "string option \<Rightarrow> string \<Rightarrow> bool" where
  "opt_includes None p = False"
| "opt_includes (Some s) p = str_includes s p"

text \<open>
  \<open>s.replace(p, r)\<close> with a string pattern replaces the first occurrence only, by the
  expansion of \<open>r\<close>: there \<open>$$\<close> is a dollar sign, \<open>$&\<close> the matched text, \<open>$`\<close> the
  text before the match and \<open>$'\<close> the text after it; a string pattern has no groups,
  so any other \<open>$\<close> stands for itself.
\<close>

fun expand :: "string \<Rightarrow> string \<Rightarrow> string \<Rightarrow> string \<Rightarrow> string" where
  "expand [] matched before after = []"
| "expand [c] matched before after = [c]"
| "expand (c # d # r) matched before after =
     (if c = CHR ''$'' \<and> d = CHR ''$'' then CHR ''$'' # expand r matched before after
      else if c = CHR ''$'' \<and> d = CHR ''&'' then matched @ expand r matched before after
      else if c = CHR ''$'' \<and> d = CHR 0x60 then before @ expand r matched before after
      else if c = CHR ''$'' \<and> d = CHR 0x27 then after @ expand r matched before after
      else c # expand (d # r) matched before after)"

fun replace_at :: "string \<Rightarrow> string \<Rightarrow> string \<Rightarrow> string \<Rightarrow> string" where
  "replace_at before [] p r = (if p = [] then before @ expand r [] before [] else before)"
| "replace_at before (c # cs) p r =
     (if startsWith (c # cs) p
      then before @ expand r p before (drop (length p) (c # cs)) @ drop (length p) (c # cs)
      else replace_at (before @ [c]) cs p r)"

definition replace :: "string \<Rightarrow> string \<Rightarrow> string \<Rightarrow> string" where
  "replace s p r = replace_at [] s p r"

text \<open>Leading and trailing HTTP whitespace (tab, line feed, carriage return, space) removed.\<close>

definition http_whitespace :: "char \<Rightarrow> bool" where
  "http_whitespace c = (c = CHR 0x09 \<or> c = CHR 0x0A \<or> c = CHR 0x0D \<or> c = CHR 0x20)"

definition strip_whitespace :: "string \<Rightarrow> string" where
  "strip_whitespace s = rev (dropWhile http_whitespace (rev (dropWhile http_whitespace s)))"

fun join :: "string \<Rightarrow> string list \<Rightarrow> string" where
  "join sep [] = []"
| "join sep [x] = x"
| "join sep (x # y # ys) = x @ sep @ join sep (y # ys)"

definition digit_char :: "nat \<Rightarrow> char" where
  "digit_char d = char_of (48 + d)"

function show_nat :: "nat \<Rightarrow> string" where
  "show_nat n = (if n < 10 then [digit_char n] else show_nat (n div 10) @ [digit_char (n mod 10)])"
  by pat_completeness auto
termination
  by (relation "measure id") auto

declare show_nat.simps [simp del]

definition show_int :: "int \<Rightarrow> string" where
  "show_int i = (if i < 0 then CHR ''-'' # show_nat (nat (- i)) else show_nat (nat i))"

section \<open>JSON values\<close>

text \<open>
  The values \<open>JSON.parse\<close> yields. Numbers are the integers: a number with a fraction
  is outside this model, and so is what the program does with an integer beyond
  \<open>2^53 - 1\<close>, where a double is no longer exact (see \<open>Number_toString\<close>). An object is
  the list of its own properties in enumeration order, its keys distinct. The value
  \<open>undefined\<close> of a missing property is \<open>None\<close> of \<open>json option\<close>.
\<close>

datatype json =
    JNull
  | JBool bool
  | JNum int
  | JStr string
  | JArr "json list"
  | JObj "(string \<times> json) list"

fun truthy :: "json \<Rightarrow> bool" where
  "truthy JNull = False"
| "truthy (JBool b) = b"
| "truthy (JNum n) = (n \<noteq> 0)"
| "truthy (JStr s) = (s \<noteq> [])"
| "truthy (JArr xs) = True"
| "truthy (JObj kvs) = True"

fun truthy_opt :: "json option \<Rightarrow> bool" where
  "truthy_opt None = False"
| "truthy_opt (Some v) = truthy v"

text \<open>\<open>a || b\<close> where \<open>a\<close> may be \<open>undefined\<close>.\<close>

fun or_else :: "json option \<Rightarrow> json \<Rightarrow> json" where
  "or_else None d = d"
| "or_else (Some v) d = (if truthy v then v else d)"

text \<open>
  What a step of the program comes to: a value, a thrown error (its message), or
  \<open>Unmodelled\<close> where the step leaves this model (the text of an integer beyond
  \<open>2^53 - 1\<close>, arithmetic on values that are not numbers, see \<open>paginate_data\<close>).
\<close>

datatype 'a result = Ok 'a | Throw string | Unmodelled

fun on_ok :: "'a result \<Rightarrow> ('a \<Rightarrow> 'b result) \<Rightarrow> 'b result" where
  "on_ok (Ok x) k = k x"
| "on_ok (Throw m) k = Throw m"
| "on_ok Unmodelled k = Unmodelled"

text \<open>\<open>xs.map(f)\<close> for an \<open>f\<close> that may throw: left to right, the first throw ends it.\<close>

fun map_ok :: "('a \<Rightarrow> 'b result) \<Rightarrow> 'a list \<Rightarrow> 'b list result" where
  "map_ok f [] = Ok []"
| "map_ok f (x # xs) = on_ok (f x) (\<lambda>y. on_ok (map_ok f xs) (\<lambda>ys. Ok (y # ys)))"

text \<open>
  The text of a number: the decimal digits of an integer up to \<open>2^53 - 1\<close> in
  magnitude. Beyond that the runtime writes the shortest digits that read back as the
  same double, in exponent form from \<open>10^21\<close> on, which this model does not compute.
\<close>

definition Number_toString :: "int \<Rightarrow> string result" where
  "Number_toString n =
     (if - 9007199254740991 \<le> n \<and> n \<le> 9007199254740991 then Ok (show_int n) else Unmodelled)"

text \<open>
  The string conversion of template literals, property keys and header values. An
  array joins the texts of its elements with commas (\<open>null\<close> as the empty string). An
  object is \<open>[object Object]\<close>, unless it has an own property \<open>toString\<close>: in a parsed
  value that is never a function, the inherited \<open>valueOf\<close> returns the object itself,
  and the conversion throws a TypeError.
\<close>

fun ToString :: "json \<Rightarrow> string result"
  and ToString_elements :: "json list \<Rightarrow> string list result" where
  "ToString JNull = Ok ''null''"
| "ToString (JBool b) = Ok (if b then ''true'' else ''false'')"
| "ToString (JNum n) = Number_toString n"
| "ToString (JStr s) = Ok s"
| "ToString (JArr xs) = on_ok (ToString_elements xs) (\<lambda>parts. Ok (join '','' parts))"
| "ToString (JObj kvs) =
     (if ''toString'' \<in> set (map fst kvs)
      then Throw ''Cannot convert object to primitive value''
      else Ok ''[object Object]'')"
| "ToString_elements [] = Ok []"
| "ToString_elements (x # xs) =
     on_ok (if x = JNull then Ok [] else ToString x) (\<lambda>part.
     on_ok (ToString_elements xs) (\<lambda>parts. Ok (part # parts)))"

fun template :: "json option \<Rightarrow> string result" where
  "template None = Ok ''undefined''"
| "template (Some v) = ToString v"

text \<open>
  \<open>obj.k = v\<close> on an object: an existing property keeps its place, a new one goes last
  (the keys this program sets are names, not array indices, which would go first).
  \<open>delete obj.k\<close> removes it. \<open>{...a, ...b}\<close> and \<open>Object.fromEntries\<close> set the
  entries one after the other.
\<close>

fun obj_set :: "string \<Rightarrow> 'a \<Rightarrow> (string \<times> 'a) list \<Rightarrow> (string \<times> 'a) list" where
  "obj_set k v [] = [(k, v)]"
| "obj_set k v (p # ps) = (if fst p = k then (k, v) # ps else p # obj_set k v ps)"

definition obj_assign :: "(string \<times> 'a) list \<Rightarrow> (string \<times> 'a) list \<Rightarrow> (string \<times> 'a) list" where
  "obj_assign target source = fold (\<lambda>p. obj_set (fst p) (snd p)) source target"

definition obj_delete :: "string \<Rightarrow> (string \<times> 'a) list \<Rightarrow> (string \<times> 'a) list" where
  "obj_delete k kvs = filter (\<lambda>p. fst p \<noteq> k) kvs"

text \<open>
  Reading a property \<open>v.k\<close>, for the property names this program reads (none of them is
  \<open>length\<close>, an index or a prototype member): a primitive or an array has no such
  property, and \<open>null.k\<close> throws a TypeError. Where the source reads several properties
  of one value, only the first read can throw: the model uses \<open>get_prop\<close> for it and
  \<open>field\<close> for the others.
\<close>

fun field :: "json \<Rightarrow> string \<Rightarrow> json option" where
  "field (JObj kvs) k = map_of kvs k"
| "field v k = None"

definition get_prop :: "json \<Rightarrow> string \<Rightarrow> json option result" where
  "get_prop v k =
     (if v = JNull
      then Throw (''Cannot read properties of null (reading '' @ [CHR 0x27] @ k @ [CHR 0x27] @ '')'')
      else Ok (field v k))"

section \<open>The platform\<close>

text \<open>
  \<open>JSON.parse\<close> (\<open>Inl\<close> the message of its SyntaxError) and \<open>JSON.stringify\<close> are the
  runtime's; \<open>md5\<close> is imported from \<open>./md5.js\<close>; \<open>proto_text k\<close> is the text a
  template literal gives the member of \<open>Object.prototype\<close> named \<open>k\<close>;
  \<open>invalid_header_value v\<close> is the message of the TypeError that \<open>Headers.set\<close> throws
  for a value \<open>v\<close> it refuses; \<open>invalid_status n\<close> is the message of the RangeError
  that \<open>new Response\<close> throws for a status \<open>n\<close> outside 200 to 599. They are
  parameters of the model.
\<close>

record platform =
  JSON_parse :: "string \<Rightarrow> string + json"
  JSON_stringify :: "json \<Rightarrow> string"
  md5 :: "string \<Rightarrow> string"
  proto_text :: "string \<Rightarrow> string"
  invalid_header_value :: "string \<Rightarrow> string"
  invalid_status :: "nat \<Rightarrow> string"

definition parse_json :: "platform \<Rightarrow> string \<Rightarrow> json result" where
  "parse_json P s = (case JSON_parse P s of Inl m \<Rightarrow> Throw m | Inr j \<Rightarrow> Ok j)"

text \<open>
  \<open>JSON.stringify\<close> of an object literal some of whose values may be \<open>undefined\<close>:
  a property whose value is \<open>undefined\<close> is left out of the text.
\<close>

fun defined_props :: "(string \<times> json option) list \<Rightarrow> (string \<times> json) list" where
  "defined_props [] = []"
| "defined_props ((k, None) # ps) = defined_props ps"
| "defined_props ((k, Some v) # ps) = (k, v) # defined_props ps"

definition stringify_literal :: "platform \<Rightarrow> (string \<times> json option) list \<Rightarrow> string" where
  "stringify_literal P props = JSON_stringify P (JObj (defined_props props))"

section \<open>Constants\<close>

definition GITHUB_BASE :: string where
  "GITHUB_BASE = ''https://raw.githubusercontent.com/gamehublite/gamehub_api/main''"

definition NEWS_AGGREGATOR_URL :: string where
  "NEWS_AGGREGATOR_URL = ''https://gamehub-news-aggregator.secureflex.workers.dev''"

definition GAMEHUB_SECRET_KEY :: string where
  "GAMEHUB_SECRET_KEY = ''all-egg-shell-y7ZatUDk''"

section \<open>generateSignature\<close>

text \<open>\<open>params\<close> is the object's property list, in the order \<open>Object.keys\<close> enumerates.\<close>

definition generateSignature :: "platform \<Rightarrow> (string \<times> json) list \<Rightarrow> string result" where
  "generateSignature P params =
     (let sortedKeys = sort (filter (\<lambda>k. k \<noteq> ''sign'') (map fst params))
      in on_ok (map_ok (\<lambda>key. on_ok (template (map_of params key)) (\<lambda>v. Ok (key @ ''='' @ v)))
                  sortedKeys)
           (\<lambda>parts.
              let paramString = join ''&'' parts;
                  signString = paramString @ ''&'' @ GAMEHUB_SECRET_KEY
              in Ok (toLowerCase (md5 P signString))))"

text \<open>
  A flat object: every value is \<open>null\<close>, a boolean, a string or an integer up to
  \<open>2^53 - 1\<close> in magnitude. \<open>flat_text\<close> is the text of such a value.
\<close>

fun flat_value :: "json \<Rightarrow> bool" where
  "flat_value JNull = True"
| "flat_value (JBool b) = True"
| "flat_value (JNum n) = (- 9007199254740991 \<le> n \<and> n \<le> 9007199254740991)"
| "flat_value (JStr s) = True"
| "flat_value (JArr xs) = False"
| "flat_value (JObj kvs) = False"

definition flat :: "(string \<times> json) list \<Rightarrow> bool" where
  "flat params = list_all (\<lambda>p. flat_value (snd p)) params"

fun flat_text :: "json \<Rightarrow> string" where
  "flat_text JNull = ''null''"
| "flat_text (JBool b) = (if b then ''true'' else ''false'')"
| "flat_text (JNum n) = show_int n"
| "flat_text (JStr s) = s"
| "flat_text (JArr xs) = []"
| "flat_text (JObj kvs) = []"

text \<open>
  The signature of a flat object as the specification words it: the pairs other than
  \<open>sign\<close>, sorted by key, each rendered \<open>key=value\<close>, joined with \<open>&\<close>, the shared
  secret appended after another \<open>&\<close>, digested, in lower case.
\<close>

definition signature_spec :: "platform \<Rightarrow> (string \<times> json) list \<Rightarrow> string" where
  "signature_spec P params =
     toLowerCase (md5 P
       (join ''&'' (map (\<lambda>p. fst p @ ''='' @ flat_text (snd p))
                     (sort_key fst (filter (\<lambda>p. fst p \<noteq> ''sign'') params)))
        @ ''&'' @ GAMEHUB_SECRET_KEY))"

section \<open>Requests, responses and the world\<close>

text \<open>
  A \<open>Headers\<close> object is its header list: names and values in the order they were
  appended, the values without leading or trailing whitespace. Names match without
  regard to case. \<open>Headers.get\<close> joins the values of a name with a comma and a space.
  \<open>Headers.set\<close> strips the value, throws a TypeError when it holds a NUL, a line feed
  or a carriage return, overwrites the first header of the name and drops the others.
  A \<open>Headers\<close> built from an object literal appends its entries in order, so its header
  list is the list of the entries (the literals of this program are valid as they
  stand).
\<close>

type_synonym header_list = "(string \<times> string) list"

definition header_values :: "header_list \<Rightarrow> string \<Rightarrow> string list" where
  "header_values hs name = map snd (filter (\<lambda>h. toLowerCase (fst h) = toLowerCase name) hs)"

definition header_get :: "header_list \<Rightarrow> string \<Rightarrow> string option" where
  "header_get hs name =
     (let vs = header_values hs name
      in if vs = [] then None else Some (join '', '' vs))"

fun header_set :: "string \<Rightarrow> string \<Rightarrow> header_list \<Rightarrow> header_list" where
  "header_set name v [] = [(name, v)]"
| "header_set name v (h # hs) =
     (if toLowerCase (fst h) = toLowerCase name
      then (fst h, v) # filter (\<lambda>h'. toLowerCase (fst h') \<noteq> toLowerCase name) hs
      else h # header_set name v hs)"

definition Headers_set :: "platform \<Rightarrow> string \<Rightarrow> string \<Rightarrow> header_list \<Rightarrow> header_list result" where
  "Headers_set P name v hs =
     (let v' = strip_whitespace v
      in if CHR 0x00 \<in> set v' \<or> CHR 0x0A \<in> set v' \<or> CHR 0x0D \<in> set v'
         then Throw (invalid_header_value P v)
         else Ok (header_set name v' hs))"

text \<open>
  Iterating a \<open>Headers\<close> yields its names in lower case, sorted, each once with its
  values joined; only \<open>set-cookie\<close> comes once for each of its values. This is what
  \<open>new Headers(h)\<close>, a \<open>headers: h\<close> option and \<open>Object.fromEntries(h)\<close> read from a
  \<open>Headers\<close> object \<open>h\<close>.
\<close>

definition Headers_entries :: "header_list \<Rightarrow> header_list" where
  "Headers_entries hs =
     concat (map (\<lambda>name.
                    if name = ''set-cookie'' then map (Pair name) (header_values hs name)
                    else [(name, join '', '' (header_values hs name))])
              (sort (remdups (map (\<lambda>h. toLowerCase (fst h)) hs))))"

text \<open>
  The inbound request: \<open>req_pathname\<close> is \<open>new URL(request.url).pathname\<close>,
  \<open>req_body\<close> the text of the body, empty when there is none.
\<close>

record request =
  req_method :: string
  req_url :: string
  req_pathname :: string
  req_headers :: header_list
  req_body :: string

text \<open>The response the worker returns; \<open>resp_headers\<close> is the header list of its \<open>Headers\<close>.\<close>

record response =
  resp_status :: nat
  resp_headers :: header_list
  resp_body :: string

text \<open>The response of a \<open>fetch\<close> or of the cache.\<close>

record upstream =
  up_status :: nat
  up_headers :: header_list
  up_body :: string

definition ok :: "upstream \<Rightarrow> bool" where
  "ok r = (200 \<le> up_status r \<and> up_status r \<le> 299)"

text \<open>
  A call of the global \<open>fetch\<close>: \<open>f_headers\<close> lists the entries that \<open>fetch\<close> reads from
  the \<open>headers\<close> option (a \<open>Content-Type\<close> that \<open>fetch\<close> adds by itself to a body sent
  without one is not listed), \<open>f_cf\<close> is \<open>cacheTtl\<close> and \<open>cacheEverything\<close>.
\<close>

record fetch_call =
  f_url :: string
  f_method :: string
  f_headers :: header_list
  f_body :: "string option"
  f_cf :: "(nat \<times> bool) option"

definition fetch_url :: "string \<Rightarrow> fetch_call" where
  "fetch_url u = \<lparr>f_url = u, f_method = ''GET'', f_headers = [], f_body = None, f_cf = None\<rparr>"

text \<open>
  The effects of a run, in order: a lookup in \<open>caches.default\<close>, a \<open>fetch\<close>, and the
  \<open>cache.put\<close> handed to \<open>ctx.waitUntil\<close> (key, headers and body of the stored response).
\<close>

datatype event =
    CacheMatch string
  | Fetch fetch_call
  | CachePut string header_list string

text \<open>
  The world answers: what the cache holds under a key, what a \<open>fetch\<close> returns
  (\<open>Inl\<close> the message of the error it throws), and \<open>Date.now()\<close>. No run of the worker
  issues the same call twice, so a function of the call is as general as a sequence of
  answers.
\<close>

record world =
  cache_match :: "string \<Rightarrow> upstream option"
  net :: "fetch_call \<Rightarrow> string + upstream"
  now :: int

record env =
  TOKEN_REFRESHER_URL :: string

fun on_ok_ev :: "'a result \<Rightarrow> ('a \<Rightarrow> event list \<times> 'b result) \<Rightarrow> event list \<times> 'b result" where
  "on_ok_ev (Ok x) k = k x"
| "on_ok_ev (Throw m) k = ([], Throw m)"
| "on_ok_ev Unmodelled k = ([], Unmodelled)"

text \<open>\<open>await fetch(call)\<close>, then the rest of the handler on its response.\<close>

definition do_fetch :: "world \<Rightarrow> fetch_call \<Rightarrow> (upstream \<Rightarrow> 'a result) \<Rightarrow> event list \<times> 'a result" where
  "do_fetch W call k =
     ([Fetch call], case net W call of Inl m \<Rightarrow> Throw m | Inr r \<Rightarrow> k r)"

definition corsHeaders :: header_list where
  "corsHeaders =
     [(''Access-Control-Allow-Origin'', ''*''),
      (''Access-Control-Allow-Methods'', ''GET, POST, OPTIONS''),
      (''Access-Control-Allow-Headers'', ''Content-Type'')]"

text \<open>
  \<open>new Response(JSON.stringify(j), {status, headers: {'Content-Type': 'application/json',
  ...corsHeaders}})\<close>; the status is 200 where the source gives none.
\<close>

definition json_response :: "platform \<Rightarrow> nat \<Rightarrow> json \<Rightarrow> response" where
  "json_response P st j =
     \<lparr>resp_status = st,
      resp_headers = (''Content-Type'', ''application/json'') # corsHeaders,
      resp_body = JSON_stringify P j\<rparr>"

section \<open>Token interception\<close>

text \<open>
  The real token: from the cache, or from the refresher on a miss (then stored, not
  awaited). \<open>Ok None\<close> is a token left \<open>undefined\<close> by a refresher that did not
  answer with success.
\<close>

definition resolve_token :: "platform \<Rightarrow> world \<Rightarrow> env \<Rightarrow> event list \<times> json option result" where
  "resolve_token P W E =
     (let cacheKey = TOKEN_REFRESHER_URL E @ ''/token-cached''
      in case cache_match W cacheKey of
           Some cachedResponse \<Rightarrow>
             ([CacheMatch cacheKey],
              on_ok (parse_json P (up_body cachedResponse))
                (\<lambda>cachedData. get_prop cachedData ''token''))
         | None \<Rightarrow>
             (let call = (fetch_url (TOKEN_REFRESHER_URL E @ ''/token''))
                           \<lparr>f_headers := [(''X-Worker-Auth'', ''gamehub-internal-token-fetch-2025'')]\<rparr>
              in case net W call of
                   Inl m \<Rightarrow> ([CacheMatch cacheKey, Fetch call], Throw m)
                 | Inr tokenResponse \<Rightarrow>
                     if ok tokenResponse then
                       (case parse_json P (up_body tokenResponse) of
                          Ok tokenData \<Rightarrow>
                            (case get_prop tokenData ''token'' of
                               Ok realToken \<Rightarrow>
                                 ([CacheMatch cacheKey, Fetch call,
                                   CachePut cacheKey
                                     [(''Content-Type'', ''application/json''),
                                      (''Cache-Control'', ''public, max-age=14400'')]
                                     (JSON_stringify P tokenData)],
                                  Ok realToken)
                             | Throw m \<Rightarrow> ([CacheMatch cacheKey, Fetch call], Throw m)
                             | Unmodelled \<Rightarrow> ([CacheMatch cacheKey, Fetch call], Unmodelled))
                        | Throw m \<Rightarrow> ([CacheMatch cacheKey, Fetch call], Throw m)
                        | Unmodelled \<Rightarrow> ([CacheMatch cacheKey, Fetch call], Unmodelled))
                     else ([CacheMatch cacheKey, Fetch call], Ok None)))"

text \<open>
  \<open>bodyJson.token = realToken\<close>, the signature again, \<open>JSON.stringify(bodyJson)\<close>.
  On an array the assignments make named properties: the signature is computed over
  the indices and \<open>token\<close>, and \<open>JSON.stringify\<close> writes the elements only. On a
  primitive the assignment throws (module code is strict).
\<close>

definition array_params :: "json list \<Rightarrow> (string \<times> json) list" where
  "array_params xs = zip (map show_nat [0..<length xs]) xs"

fun rewrite_body :: "platform \<Rightarrow> json \<Rightarrow> json \<Rightarrow> string result" where
  "rewrite_body P (JObj kvs) realToken =
     (let withToken = obj_set ''token'' realToken kvs
      in on_ok (generateSignature P withToken) (\<lambda>newSignature.
           Ok (JSON_stringify P (JObj (obj_set ''sign'' (JStr newSignature) withToken)))))"
| "rewrite_body P (JArr xs) realToken =
     on_ok (generateSignature P (array_params xs @ [(''token'', realToken)])) (\<lambda>newSignature.
       Ok (JSON_stringify P (JArr xs)))"
| "rewrite_body P JNull realToken =
     Throw (''Cannot set properties of null (setting '' @ [CHR 0x27] @ ''token'' @ [CHR 0x27] @ '')'')"
| "rewrite_body P (JStr s) realToken =
     Throw (''Cannot create property '' @ [CHR 0x27] @ ''token'' @ [CHR 0x27] @ '' on string ''
            @ [CHR 0x27] @ s @ [CHR 0x27])"
| "rewrite_body P (JNum n) realToken =
     on_ok (Number_toString n) (\<lambda>t.
       Throw (''Cannot create property '' @ [CHR 0x27] @ ''token'' @ [CHR 0x27] @ '' on number ''
              @ [CHR 0x27] @ t @ [CHR 0x27]))"
| "rewrite_body P (JBool b) realToken =
     Throw (''Cannot create property '' @ [CHR 0x27] @ ''token'' @ [CHR 0x27] @ '' on boolean ''
            @ [CHR 0x27] @ (if b then ''true'' else ''false'') @ [CHR 0x27])"

text \<open>
  The request rebuilt with the real token. \<open>new Headers(request.headers)\<close> reads the
  entries of the inbound headers; the two \<open>set\<close> calls convert the token to a string;
  \<open>new Request(request.url, {method, headers, body})\<close> reads the entries of
  \<open>newHeaders\<close> and takes the rewritten body, \<open>bodyText\<close>, or no body.
\<close>

definition substitute :: "platform \<Rightarrow> request \<Rightarrow> string option \<Rightarrow> string option \<Rightarrow> string \<Rightarrow> json \<Rightarrow> request result" where
  "substitute P request authHeader tokenHeader bodyText realToken =
     on_ok (case authHeader of
              Some a \<Rightarrow>
                if str_includes a ''fake-token''
                then on_ok (ToString realToken) (\<lambda>t.
                       Headers_set P ''Authorization'' (replace a ''fake-token'' t)
                         (Headers_entries (req_headers request)))
                else Ok (Headers_entries (req_headers request))
            | None \<Rightarrow> Ok (Headers_entries (req_headers request))) (\<lambda>newHeaders.
     on_ok (if tokenHeader = Some ''fake-token''
            then on_ok (ToString realToken) (\<lambda>t. Headers_set P ''token'' t newHeaders)
            else Ok newHeaders) (\<lambda>newHeaders.
       if bodyText \<noteq> [] \<and> str_includes bodyText ''fake-token'' then
         on_ok (parse_json P bodyText) (\<lambda>bodyJson.
         on_ok (rewrite_body P bodyJson realToken) (\<lambda>modifiedBody.
           Ok (request\<lparr>req_headers := Headers_entries newHeaders, req_body := modifiedBody\<rparr>)))
       else if bodyText \<noteq> [] then
         Ok (request\<lparr>req_headers := Headers_entries newHeaders, req_body := bodyText\<rparr>)
       else
         Ok (request\<lparr>req_headers := Headers_entries newHeaders, req_body := []\<rparr>)))"

definition intercept :: "platform \<Rightarrow> world \<Rightarrow> env \<Rightarrow> request \<Rightarrow> event list \<times> request result" where
  "intercept P W E request =
     (let authHeader = header_get (req_headers request) ''Authorization'';
          tokenHeader = header_get (req_headers request) ''token'';
          bodyText =
            (if req_method request = ''POST'' \<and>
                opt_includes (header_get (req_headers request) ''Content-Type'') ''application/json''
             then req_body request else []);
          shouldReplaceToken =
            (opt_includes authHeader ''fake-token'' \<or>
             tokenHeader = Some ''fake-token'' \<or>
             str_includes bodyText ''fake-token'')
      in if shouldReplaceToken then
           (case resolve_token P W E of
              (evs, Ok (Some realToken)) \<Rightarrow>
                (evs,
                 if truthy realToken
                 then substitute P request authHeader tokenHeader bodyText realToken
                 else Ok request)
            | (evs, Ok None) \<Rightarrow> (evs, Ok request)
            | (evs, Throw m) \<Rightarrow> (evs, Throw m)
            | (evs, Unmodelled) \<Rightarrow> (evs, Unmodelled))
         else ([], Ok request))"

section \<open>The routes\<close>

text \<open>
  \<open>request.json()\<close> is \<open>parse_json\<close> of the body text, \<open>response.json()\<close> of the
  upstream body. A route returns the events it caused and its response.
\<close>

text \<open>
  \<open>delete responseData.data.k\<close> and the assignments to \<open>manifestData.data\<close> act on
  the object held under \<open>data\<close>; \<open>set_data\<close> puts the changed object back in its place.
\<close>

fun set_data :: "json \<Rightarrow> (string \<times> json) list \<Rightarrow> json" where
  "set_data (JObj kvs) dk = JObj (obj_set ''data'' (JObj dk) kvs)"
| "set_data v dk = v"

definition card_getGameDetail :: "platform \<Rightarrow> world \<Rightarrow> request \<Rightarrow> event list \<times> response result" where
  "card_getGameDetail P W request =
     (let bodyText = req_body request;
          call = \<lparr>f_url = ''https://landscape-api.vgabc.com/card/getGameDetail'',
                  f_method = ''POST'', f_headers = Headers_entries (req_headers request),
                  f_body = Some bodyText, f_cf = None\<rparr>
      in do_fetch W call (\<lambda>chineseResponse.
           on_ok (parse_json P (up_body chineseResponse)) (\<lambda>responseData.
           on_ok (get_prop responseData ''data'') (\<lambda>d.
             Ok (json_response P 200
                  (case d of
                     Some (JObj dk) \<Rightarrow>
                       set_data responseData
                         (obj_delete ''card_line_data'' (obj_delete ''recommend_game'' dk))
                   | _ \<Rightarrow> responseData))))))"

definition card_getNewsList :: "platform \<Rightarrow> world \<Rightarrow> request \<Rightarrow> event list \<times> response result" where
  "card_getNewsList P W request =
     on_ok_ev (parse_json P (req_body request)) (\<lambda>body.
     on_ok_ev (get_prop body ''page'') (\<lambda>pg.
       let page = or_else pg (JNum 1);
           pageSize = or_else (field body ''page_size'') (JNum 4)
       in on_ok_ev (ToString page) (\<lambda>pageText.
          on_ok_ev (ToString pageSize) (\<lambda>pageSizeText.
            do_fetch W
              (fetch_url (NEWS_AGGREGATOR_URL @ ''/api/news/list?page='' @ pageText
                            @ ''&page_size='' @ pageSizeText))
              (\<lambda>newsResponse.
                 if \<not> ok newsResponse then
                   Ok (json_response P 200
                        (JObj [(''code'', JNum 500), (''msg'', JStr ''Failed to fetch news''),
                               (''time'', JStr []), (''data'', JArr [])]))
                 else on_ok (parse_json P (up_body newsResponse)) (\<lambda>newsData.
                        Ok (json_response P 200 newsData)))))))"

definition card_getNewsGuideDetail :: "platform \<Rightarrow> world \<Rightarrow> request \<Rightarrow> event list \<times> response result" where
  "card_getNewsGuideDetail P W request =
     on_ok_ev (parse_json P (req_body request)) (\<lambda>body.
     on_ok_ev (get_prop body ''id'') (\<lambda>newsId.
       if \<not> truthy_opt newsId then
         ([], Ok (json_response P 400
                   (JObj [(''code'', JNum 400), (''msg'', JStr ''Missing id parameter''),
                          (''time'', JStr []), (''data'', JNull)])))
       else on_ok_ev (template newsId) (\<lambda>idText.
              do_fetch W
                (fetch_url (NEWS_AGGREGATOR_URL @ ''/api/news/detail/'' @ idText))
                (\<lambda>newsDetailResponse.
                   if \<not> ok newsDetailResponse then
                     Ok (json_response P 404
                          (JObj [(''code'', JNum 404), (''msg'', JStr ''News not found''),
                                 (''time'', JStr []), (''data'', JNull)]))
                   else on_ok (parse_json P (up_body newsDetailResponse)) (\<lambda>newsDetailData.
                          Ok (json_response P 200 newsDetailData))))))"

text \<open>
  The object literal \<open>sanitizedBody\<close>; a value read from a body that lacks it is
  \<open>undefined\<close>. Before its fetch the route writes \<open>body.gpu_vendor\<close> to the log in a
  template literal: the conversion to a string can throw.
\<close>

definition sanitizedBody :: "json \<Rightarrow> (string \<times> json option) list" where
  "sanitizedBody body =
     [(''gpu_vendor'', field body ''gpu_vendor''),
      (''gpu_version'', Some (JNum 0)),
      (''gpu_device_name'', Some (JStr ''Generic Device'')),
      (''game_type'', Some (or_else (field body ''game_type'') (JNum 2))),
      (''token'', field body ''token''),
      (''game_id'', Some (JStr ''0'')),
      (''sign'', field body ''sign''),
      (''time'', field body ''time''),
      (''clientparams'',
         Some (JStr ''5.1.0|0|en|Generic|1920*1080|app|app|generic|||||||||com.app|Generic|generic'')),
      (''gpu_system_driver_version'', Some (JNum 0))]"

text \<open>
  The keys of \<open>sanitizedBody\<close>, and those among them whose value is read from the
  request body.
\<close>

definition sanitized_fields :: "string list" where
  "sanitized_fields =
     [''gpu_vendor'', ''gpu_version'', ''gpu_device_name'', ''game_type'', ''token'', ''game_id'',
      ''sign'', ''time'', ''clientparams'', ''gpu_system_driver_version'']"

definition copied_fields :: "string list" where
  "copied_fields = [''gpu_vendor'', ''token'', ''sign'', ''time'']"

definition simulator_executeScript :: "platform \<Rightarrow> world \<Rightarrow> request \<Rightarrow> event list \<times> response result" where
  "simulator_executeScript P W request =
     on_ok_ev (parse_json P (req_body request)) (\<lambda>body.
     on_ok_ev (get_prop body ''gpu_vendor'') (\<lambda>gpu_vendor.
     on_ok_ev (template gpu_vendor) (\<lambda>logged.
       do_fetch W
         \<lparr>f_url = ''https://landscape-api.vgabc.com/simulator/executeScript'',
          f_method = ''POST'',
          f_headers = [(''Content-Type'', ''application/json'')],
          f_body = Some (stringify_literal P (sanitizedBody body)),
          f_cf = None\<rparr>
         (\<lambda>chineseResponse.
            on_ok (parse_json P (up_body chineseResponse)) (\<lambda>responseData.
              Ok (json_response P 200 responseData))))))"

definition base_getBaseInfo :: "platform \<Rightarrow> world \<Rightarrow> event list \<times> response result" where
  "base_getBaseInfo P W =
     do_fetch W (fetch_url (GITHUB_BASE @ ''/base/getBaseInfo'')) (\<lambda>response.
       if \<not> ok response then
         Ok (json_response P 500
              (JObj [(''code'', JNum 500), (''msg'', JStr ''Failed to fetch base info'')]))
       else on_ok (parse_json P (up_body response)) (\<lambda>data. Ok (json_response P 200 data)))"

definition cloud_game_check_user_timer :: "platform \<Rightarrow> world \<Rightarrow> event list \<times> response result" where
  "cloud_game_check_user_timer P W =
     do_fetch W (fetch_url (GITHUB_BASE @ ''/cloud/game/check_user_timer'')) (\<lambda>response.
       if \<not> ok response then
         Ok (json_response P 500
              (JObj [(''code'', JNum 500), (''msg'', JStr ''Failed to check timer'')]))
       else on_ok (parse_json P (up_body response)) (\<lambda>data. Ok (json_response P 200 data)))"

definition game_getDnsIpPool :: "platform \<Rightarrow> world \<Rightarrow> event list \<times> response result" where
  "game_getDnsIpPool P W =
     do_fetch W (fetch_url (GITHUB_BASE @ ''/game/getDnsIpPool'')) (\<lambda>dnsPoolResponse.
       if \<not> ok dnsPoolResponse then
         Ok (json_response P 500
              (JObj [(''code'', JNum 500), (''msg'', JStr ''Failed to fetch DNS pool'')]))
       else on_ok (parse_json P (up_body dnsPoolResponse)) (\<lambda>dnsPoolData.
              Ok (json_response P 200 dnsPoolData)))"

definition game_getSteamHost :: "platform \<Rightarrow> world \<Rightarrow> event list \<times> response result" where
  "game_getSteamHost P W =
     do_fetch W (fetch_url (GITHUB_BASE @ ''/game/getSteamHost/index'')) (\<lambda>hostsResponse.
       if \<not> ok hostsResponse then
         Ok (json_response P 500
              (JObj [(''code'', JNum 500), (''msg'', JStr ''Failed to fetch Steam hosts'')]))
       else Ok \<lparr>resp_status = 200,
                resp_headers = (''Content-Type'', ''text/plain'') # corsHeaders,
                resp_body = up_body hostsResponse\<rparr>)"

definition card_getGameIcon :: "platform \<Rightarrow> world \<Rightarrow> event list \<times> response result" where
  "card_getGameIcon P W =
     ([], on_ok (Number_toString (now W div 1000)) (\<lambda>seconds.
            Ok (json_response P 200
                 (JObj [(''code'', JNum 200), (''msg'', JStr []),
                        (''time'', JStr seconds), (''data'', JArr [])]))))"

subsection \<open>The component list\<close>

definition TYPE_TO_MANIFEST :: "(string \<times> string) list" where
  "TYPE_TO_MANIFEST =
     [(''1'', ''/components/box64_manifest''),
      (''2'', ''/components/drivers_manifest''),
      (''3'', ''/components/dxvk_manifest''),
      (''4'', ''/components/vkd3d_manifest''),
      (''5'', ''/components/games_manifest''),
      (''6'', ''/components/libraries_manifest''),
      (''7'', ''/components/steam_manifest'')]"

definition Object_prototype_members :: "string list" where
  "Object_prototype_members =
     [''constructor'', ''hasOwnProperty'', ''isPrototypeOf'', ''propertyIsEnumerable'',
      ''toLocaleString'', ''toString'', ''valueOf'', ''__proto__'', ''__defineGetter__'',
      ''__defineSetter__'', ''__lookupGetter__'', ''__lookupSetter__'']"

text \<open>
  \<open>TYPE_TO_MANIFEST[type]\<close>: the property whose key is the string of \<open>type\<close> (the
  conversion may throw), the table's own or one inherited from \<open>Object.prototype\<close> (a
  function or an object, so truthy); \<open>None\<close> when there is none. Every own value is a
  non-empty string.
\<close>

definition manifest_of :: "platform \<Rightarrow> json \<Rightarrow> string option result" where
  "manifest_of P ty =
     on_ok (ToString ty) (\<lambda>k.
       case map_of TYPE_TO_MANIFEST k of
         Some m \<Rightarrow> Ok (Some m)
       | None \<Rightarrow> if k \<in> set Object_prototype_members then Ok (Some (proto_text P k)) else Ok None)"

text \<open>\<open>!type || !TYPE_TO_MANIFEST[type]\<close> holds when \<open>valid_type P type = Ok None\<close>.\<close>

fun valid_type :: "platform \<Rightarrow> json option \<Rightarrow> string option result" where
  "valid_type P None = Ok None"
| "valid_type P (Some ty) = (if truthy ty then manifest_of P ty else Ok None)"

text \<open>\<open>Array.prototype.slice\<close> and \<open>String.prototype.slice\<close> on integer bounds.\<close>

definition slice :: "'a list \<Rightarrow> int \<Rightarrow> int \<Rightarrow> 'a list" where
  "slice xs start fin =
     (let len = int (length xs);
          k = (if start < 0 then max (len + start) 0 else min start len);
          final = (if fin < 0 then max (len + fin) 0 else min fin len)
      in take (nat (final - k)) (drop (nat k) xs))"

text \<open>
  \<open>manifestData.data && manifestData.data.components\<close>: the list moves from
  \<open>components\<close> to \<open>list\<close>.
\<close>

definition rename_components :: "json \<Rightarrow> json result" where
  "rename_components manifestData =
     on_ok (get_prop manifestData ''data'') (\<lambda>d.
       case d of
         Some (JObj dk) \<Rightarrow>
           (case map_of dk ''components'' of
              Some c \<Rightarrow>
                if truthy c
                then Ok (set_data manifestData (obj_delete ''components'' (obj_set ''list'' c dk)))
                else Ok manifestData
            | None \<Rightarrow> Ok manifestData)
       | _ \<Rightarrow> Ok manifestData)"

text \<open>
  The pagination block, on a \<open>data\<close> object \<open>dk\<close> whose \<open>list\<close> is the truthy
  \<open>allItems\<close>. An array or a string has \<open>slice\<close> and \<open>length\<close>; on any other value
  \<open>allItems.slice\<close> is not a function. The arithmetic is modelled for a \<open>page\<close> and a
  \<open>pageSize\<close> that are numbers, as the body's declared type has them.
\<close>

fun sliceable :: "json \<Rightarrow> bool" where
  "sliceable (JArr xs) = True"
| "sliceable (JStr str) = True"
| "sliceable v = False"

fun items_length :: "json \<Rightarrow> int" where
  "items_length (JArr xs) = int (length xs)"
| "items_length (JStr str) = int (length str)"
| "items_length v = 0"

fun slice_items :: "json \<Rightarrow> int \<Rightarrow> int \<Rightarrow> json" where
  "slice_items (JArr xs) start fin = JArr (slice xs start fin)"
| "slice_items (JStr str) start fin = JStr (slice str start fin)"
| "slice_items v start fin = v"

fun as_number :: "json \<Rightarrow> int option" where
  "as_number (JNum n) = Some n"
| "as_number v = None"

definition paginate_data :: "(string \<times> json) list \<Rightarrow> json \<Rightarrow> json \<Rightarrow> json \<Rightarrow> (string \<times> json) list result" where
  "paginate_data dk allItems page pageSize =
     (if \<not> sliceable allItems then Throw ''allItems.slice is not a function''
      else case (as_number page, as_number pageSize) of
             (Some p, Some sz) \<Rightarrow>
               (let total = or_else (map_of dk ''total'') (JNum (items_length allItems));
                    startIndex = (p - 1) * sz;
                    endIndex = startIndex + sz;
                    paginatedItems = slice_items allItems startIndex endIndex
                in Ok (obj_set ''total'' total
                        (obj_set ''pageSize'' pageSize
                          (obj_set ''page'' page
                            (obj_set ''list'' paginatedItems dk)))))
           | _ \<Rightarrow> Unmodelled)"

definition paginate :: "json \<Rightarrow> json \<Rightarrow> json \<Rightarrow> json result" where
  "paginate manifestData page pageSize =
     on_ok (get_prop manifestData ''data'') (\<lambda>d.
       case d of
         Some (JObj dk) \<Rightarrow>
           (case map_of dk ''list'' of
              Some allItems \<Rightarrow>
                if truthy allItems
                then on_ok (paginate_data dk allItems page pageSize) (\<lambda>dk'.
                       Ok (set_data manifestData dk'))
                else Ok manifestData
            | None \<Rightarrow> Ok manifestData)
       | _ \<Rightarrow> Ok manifestData)"

definition simulator_v2_getComponentList :: "platform \<Rightarrow> world \<Rightarrow> request \<Rightarrow> event list \<times> response result" where
  "simulator_v2_getComponentList P W request =
     on_ok_ev (parse_json P (req_body request)) (\<lambda>body.
     on_ok_ev (get_prop body ''type'') (\<lambda>ty.
       let page = or_else (field body ''page'') (JNum 1);
           pageSize = or_else (field body ''page_size'') (JNum 10)
       in on_ok_ev (valid_type P ty) (\<lambda>found.
            case found of
              None \<Rightarrow>
                ([], Ok (json_response P 400
                          (JObj [(''code'', JNum 400), (''msg'', JStr ''Invalid type parameter'')])))
            | Some manifest \<Rightarrow>
                do_fetch W (fetch_url (GITHUB_BASE @ manifest)) (\<lambda>response.
                  if \<not> ok response then
                    Ok (json_response P 500
                         (JObj [(''code'', JNum 500), (''msg'', JStr ''Failed to fetch manifest'')]))
                  else on_ok (parse_json P (up_body response)) (\<lambda>manifestData.
                       on_ok (rename_components manifestData) (\<lambda>renamed.
                       on_ok (paginate renamed page pageSize) (\<lambda>paged.
                         Ok (json_response P 200 paged))))))))"

subsection \<open>The fallback proxy\<close>

text \<open>
  The headers of the answer are built from the object literal
  \<open>{...Object.fromEntries(githubResponse.headers), ...corsHeaders, 'Cache-Control': ...}\<close>:
  the upstream's entries, then the keys of \<open>corsHeaders\<close> and \<open>Cache-Control\<close>, each
  replacing an entry of exactly the same key or else added at the end. The \<open>Headers\<close>
  of the answer has these entries as its header list, so a name that the upstream sent
  (in lower case, as the entries have it) stays beside its capitalised namesake.
  \<open>new Response\<close> takes a status from 200 to 599 and throws a RangeError for another.
\<close>

definition fallback :: "platform \<Rightarrow> world \<Rightarrow> request \<Rightarrow> event list \<times> response result" where
  "fallback P W request =
     (let githubUrl = GITHUB_BASE @ req_pathname request
      in do_fetch W ((fetch_url githubUrl)\<lparr>f_cf := Some (300, True)\<rparr>) (\<lambda>githubResponse.
           if up_status githubResponse < 200 \<or> 599 < up_status githubResponse
           then Throw (invalid_status P (up_status githubResponse))
           else
             Ok \<lparr>resp_status = up_status githubResponse,
                 resp_headers =
                   obj_set ''Cache-Control'' ''public, max-age=300''
                     (obj_assign (obj_assign [] (Headers_entries (up_headers githubResponse)))
                        corsHeaders),
                 resp_body = up_body githubResponse\<rparr>))"

section \<open>The handler\<close>

text \<open>The routes in the order of the source; the first that matches answers.\<close>

definition dispatch :: "platform \<Rightarrow> world \<Rightarrow> request \<Rightarrow> event list \<times> response result" where
  "dispatch P W request =
     (let pathname = req_pathname request; m = req_method request
      in if pathname = ''/card/getGameDetail'' \<and> m = ''POST'' then card_getGameDetail P W request
         else if pathname = ''/card/getNewsList'' \<and> m = ''POST'' then card_getNewsList P W request
         else if pathname = ''/card/getNewsGuideDetail'' \<and> m = ''POST''
           then card_getNewsGuideDetail P W request
         else if pathname = ''/simulator/executeScript'' \<and> m = ''POST''
           then simulator_executeScript P W request
         else if pathname = ''/base/getBaseInfo'' \<and> m = ''POST'' then base_getBaseInfo P W
         else if pathname = ''/cloud/game/check_user_timer'' \<and> m = ''POST''
           then cloud_game_check_user_timer P W
         else if pathname = ''/game/getDnsIpPool'' \<and> m = ''POST'' then game_getDnsIpPool P W
         else if pathname = ''/game/getSteamHost'' \<and> m = ''GET'' then game_getSteamHost P W
         else if pathname = ''/card/getGameIcon'' \<and> m = ''POST'' then card_getGameIcon P W
         else if pathname = ''/simulator/v2/getComponentList'' \<and> m = ''POST''
           then simulator_v2_getComponentList P W request
         else fallback P W request)"

text \<open>The pairs of path and method that \<open>dispatch\<close> tests, in its order.\<close>

definition routes :: "(string \<times> string) list" where
  "routes =
     [(''/card/getGameDetail'', ''POST''),
      (''/card/getNewsList'', ''POST''),
      (''/card/getNewsGuideDetail'', ''POST''),
      (''/simulator/executeScript'', ''POST''),
      (''/base/getBaseInfo'', ''POST''),
      (''/cloud/game/check_user_timer'', ''POST''),
      (''/game/getDnsIpPool'', ''POST''),
      (''/game/getSteamHost'', ''GET''),
      (''/card/getGameIcon'', ''POST''),
      (''/simulator/v2/getComponentList'', ''POST'')]"

text \<open>The body of the \<open>try\<close> block: the interception, then the routes on its request.\<close>

definition pipeline :: "platform \<Rightarrow> world \<Rightarrow> env \<Rightarrow> request \<Rightarrow> event list \<times> response result" where
  "pipeline P W E request =
     (case intercept P W E request of
        (evs, Ok modifiedRequest) \<Rightarrow>
          (case dispatch P W modifiedRequest of (evs', r) \<Rightarrow> (evs @ evs', r))
      | (evs, Throw m) \<Rightarrow> (evs, Throw m)
      | (evs, Unmodelled) \<Rightarrow> (evs, Unmodelled))"

text \<open>
  \<open>fetch(request, env, ctx)\<close>: the preflight answer, or the pipeline with its
  \<open>catch\<close>.
\<close>

definition fetch :: "platform \<Rightarrow> world \<Rightarrow> env \<Rightarrow> request \<Rightarrow> event list \<times> response result" where
  "fetch P W E request =
     (if req_method request = ''OPTIONS'' then
        ([], Ok \<lparr>resp_status = 200, resp_headers = corsHeaders, resp_body = []\<rparr>)
      else
        (case pipeline P W E request of
           (evs, Throw message) \<Rightarrow>
             (evs, Ok (json_response P 500
                        (JObj [(''code'', JNum 500), (''msg'', JStr (''Error: '' @ message))])))
         | (evs, r) \<Rightarrow> (evs, r)))"

section \<open>A platform and a world for the worked examples\<close>

text \<open>
  The examples below run the model on concrete requests. Their platform parses the few
  texts they use, writes a value as JSON text (strings without escapes), and has a
  stand-in for the digest (it returns its input behind a fixed prefix).
\<close>

fun example_stringify :: "json \<Rightarrow> string" where
  "example_stringify JNull = ''null''"
| "example_stringify (JBool b) = (if b then ''true'' else ''false'')"
| "example_stringify (JNum n) = show_int n"
| "example_stringify (JStr s) = [CHR 0x22] @ s @ [CHR 0x22]"
| "example_stringify (JArr xs) = ''['' @ join '','' (map example_stringify xs) @ '']''"
| "example_stringify (JObj kvs) =
     ''{'' @ join '','' (map (\<lambda>(k, v). [CHR 0x22] @ k @ [CHR 0x22] @ '':'' @ example_stringify v) kvs)
       @ ''}''"

definition example_parse :: \<open>string \<Rightarrow> string + json\<close> where
  \<open>example_parse s =
     (if s = ''{}'' then Inr (JObj [])
      else if s = ''{"token":"REAL"}'' then Inr (JObj [(''token'', JStr ''REAL'')])
      else if s = ''{"id":0}'' then Inr (JObj [(''id'', JNum 0)])
      else if s = ''{"type":99}'' then Inr (JObj [(''type'', JNum 99)])
      else if s = ''{"type":"1"}'' then Inr (JObj [(''type'', JStr ''1'')])
      else if s = ''{"type":"constructor"}'' then Inr (JObj [(''type'', JStr ''constructor'')])
      else if s = ''{"gpu_vendor":{"toString":1}}''
        then Inr (JObj [(''gpu_vendor'', JObj [(''toString'', JNum 1)])])
      else if s = ''{"type":{"toString":1}}''
        then Inr (JObj [(''type'', JObj [(''toString'', JNum 1)])])
      else if s = ''{"type":2,"page":2,"page_size":2}''
        then Inr (JObj [(''type'', JNum 2), (''page'', JNum 2), (''page_size'', JNum 2)])
      else if s = ''{"data":{"list":[1,2,3],"total":50}}''
        then Inr (JObj [(''data'', JObj [(''list'', JArr [JNum 1, JNum 2, JNum 3]),
                                          (''total'', JNum 50)])])
      else if s = ''{"data":{"components":[1,2,3]}}''
        then Inr (JObj [(''data'', JObj [(''components'', JArr [JNum 1, JNum 2, JNum 3])])])
      else if s = ''{"gpu_vendor":"Adreno","token":"t","device_model":"Pixel 8"}''
        then Inr (JObj [(''gpu_vendor'', JStr ''Adreno''), (''token'', JStr ''t''),
                        (''device_model'', JStr ''Pixel 8'')])
      else if s = ''{"gpu_driver":512,"token":"t","gpu_vendor":"Adreno"}''
        then Inr (JObj [(''gpu_driver'', JNum 512), (''token'', JStr ''t''),
                        (''gpu_vendor'', JStr ''Adreno'')])
      else if s = ''{"gpu_vendor":"Adreno","token":"fake-token","device_model":"Pixel 8"}''
        then Inr (JObj [(''gpu_vendor'', JStr ''Adreno''), (''token'', JStr ''fake-token''),
                        (''device_model'', JStr ''Pixel 8'')])
      else if s = ''{"gpu_vendor":"Adreno","token":"fake-token","device_model":"Pixel 9"}''
        then Inr (JObj [(''gpu_vendor'', JStr ''Adreno''), (''token'', JStr ''fake-token''),
                        (''device_model'', JStr ''Pixel 9'')])
      else if s = ''{"gpu_vendor":"Adreno","token":"REAL","device_model":"Pixel 8",'' @
                  ''"sign":"d41d:device_model=pixel 8&gpu_vendor=adreno&token=real&all-egg-shell-y7zatudk"}''
        then Inr (JObj [(''gpu_vendor'', JStr ''Adreno''), (''token'', JStr ''REAL''),
                        (''device_model'', JStr ''Pixel 8''),
                        (''sign'', JStr (''d41d:device_model=pixel 8&gpu_vendor=adreno&token=real'' @
                                         ''&all-egg-shell-y7zatudk''))])
      else if s = ''{"gpu_vendor":"Adreno","token":"REAL","device_model":"Pixel 9",'' @
                  ''"sign":"d41d:device_model=pixel 9&gpu_vendor=adreno&token=real&all-egg-shell-y7zatudk"}''
        then Inr (JObj [(''gpu_vendor'', JStr ''Adreno''), (''token'', JStr ''REAL''),
                        (''device_model'', JStr ''Pixel 9''),
                        (''sign'', JStr (''d41d:device_model=pixel 9&gpu_vendor=adreno&token=real'' @
                                         ''&all-egg-shell-y7zatudk''))])
      else Inl ''Unexpected token'')\<close>

definition example_platform :: platform where
  "example_platform =
     \<lparr>JSON_parse = example_parse,
      JSON_stringify = example_stringify,
      md5 = (\<lambda>s. ''D41D:'' @ s),
      proto_text =
        (\<lambda>k. if k = ''constructor'' then ''function Object() { [native code] }''
             else if k = ''__proto__'' then ''[object Object]''
             else ''function '' @ k @ ''() { [native code] }''),
      invalid_header_value = (\<lambda>v. ''Invalid header value.''),
      invalid_status =
        (\<lambda>n. ''Responses may only be constructed with status codes in the range 200 to 599, inclusive.'')\<rparr>"

definition example_world :: "(string \<times> upstream) list \<Rightarrow> (string \<times> upstream) list \<Rightarrow> world" where
  "example_world cached sites =
     \<lparr>cache_match = map_of cached,
      net = (\<lambda>c. case map_of sites (f_url c) of
                   Some r \<Rightarrow> Inr r
                 | None \<Rightarrow> Inl ''Network connection lost.''),
      now = 1700000000000\<rparr>"

definition example_env :: env where
  "example_env = \<lparr>TOKEN_REFRESHER_URL = ''https://token-refresher.example''\<rparr>"

definition plain_request :: request where
  "plain_request =
     \<lparr>req_method = ''POST'',
      req_url = ''https://gamehub-api.secureflex.workers.dev/card/getGameIcon'',
      req_pathname = ''/card/getGameIcon'',
      req_headers = [(''content-type'', ''application/json''), (''authorization'', ''Bearer abc'')],
      req_body = ''{}''\<rparr>"

definition bad_json_request :: request where
  "bad_json_request =
     \<lparr>req_method = ''POST'',
      req_url = ''https://gamehub-api.secureflex.workers.dev/card/getNewsList'',
      req_pathname = ''/card/getNewsList'',
      req_headers = [(''content-type'', ''application/json'')],
      req_body = ''not json''\<rparr>"

definition zero_id_request :: request where
  \<open>zero_id_request =
     \<lparr>req_method = ''POST'',
      req_url = ''https://gamehub-api.secureflex.workers.dev/card/getNewsGuideDetail'',
      req_pathname = ''/card/getNewsGuideDetail'',
      req_headers = [(''content-type'', ''application/json'')],
      req_body = ''{"id":0}''\<rparr>\<close>

definition news_request :: request where
  "news_request =
     \<lparr>req_method = ''POST'',
      req_url = ''https://gamehub-api.secureflex.workers.dev/card/getNewsList'',
      req_pathname = ''/card/getNewsList'',
      req_headers = [(''content-type'', ''application/json'')],
      req_body = ''{}''\<rparr>"

definition unavailable :: upstream where
  "unavailable = \<lparr>up_status = 503, up_headers = [], up_body = ''Service Unavailable''\<rparr>"

definition news_down :: world where
  "news_down =
     example_world []
       [(''https://gamehub-news-aggregator.secureflex.workers.dev/api/news/list?page=1&page_size=4'',
         unavailable)]"

definition string_type_request :: request where
  \<open>string_type_request =
     \<lparr>req_method = ''POST'',
      req_url = ''https://gamehub-api.secureflex.workers.dev/simulator/v2/getComponentList'',
      req_pathname = ''/simulator/v2/getComponentList'',
      req_headers = [(''content-type'', ''application/json'')],
      req_body = ''{"type":"1"}''\<rparr>\<close>

definition unmapped_type_request :: request where
  \<open>unmapped_type_request =
     \<lparr>req_method = ''POST'',
      req_url = ''https://gamehub-api.secureflex.workers.dev/simulator/v2/getComponentList'',
      req_pathname = ''/simulator/v2/getComponentList'',
      req_headers = [(''content-type'', ''application/json'')],
      req_body = ''{"type":99}''\<rparr>\<close>

definition box64_manifest :: upstream where
  \<open>box64_manifest =
     \<lparr>up_status = 200, up_headers = [(''content-type'', ''text/plain; charset=utf-8'')],
      up_body = ''{"data":{"components":[1,2,3]}}''\<rparr>\<close>

definition drivers_manifest :: upstream where
  \<open>drivers_manifest =
     \<lparr>up_status = 200, up_headers = [(''content-type'', ''text/plain; charset=utf-8'')],
      up_body = ''{"data":{"list":[1,2,3],"total":50}}''\<rparr>\<close>

definition not_found :: upstream where
  "not_found =
     \<lparr>up_status = 404, up_headers = [(''content-type'', ''text/plain; charset=utf-8'')],
      up_body = ''404: Not Found''\<rparr>"

definition github_up :: world where
  "github_up =
     example_world []
       [(''https://raw.githubusercontent.com/gamehublite/gamehub_api/main/components/box64_manifest'',
         box64_manifest),
        (''https://raw.githubusercontent.com/gamehublite/gamehub_api/main/components/drivers_manifest'',
         drivers_manifest),
        (''https://raw.githubusercontent.com/gamehublite/gamehub_api/mainfunction Object() { [native code] }'',
         not_found)]"

definition constructor_type_request :: request where
  \<open>constructor_type_request =
     \<lparr>req_method = ''POST'',
      req_url = ''https://gamehub-api.secureflex.workers.dev/simulator/v2/getComponentList'',
      req_pathname = ''/simulator/v2/getComponentList'',
      req_headers = [(''content-type'', ''application/json'')],
      req_body = ''{"type":"constructor"}''\<rparr>\<close>

definition second_page_request :: request where
  \<open>second_page_request =
     \<lparr>req_method = ''POST'',
      req_url = ''https://gamehub-api.secureflex.workers.dev/simulator/v2/getComponentList'',
      req_pathname = ''/simulator/v2/getComponentList'',
      req_headers = [(''content-type'', ''application/json'')],
      req_body = ''{"type":2,"page":2,"page_size":2}''\<rparr>\<close>

definition empty_script_request :: request where
  \<open>empty_script_request =
     \<lparr>req_method = ''POST'',
      req_url = ''https://gamehub-api.secureflex.workers.dev/simulator/executeScript'',
      req_pathname = ''/simulator/executeScript'',
      req_headers = [(''content-type'', ''application/json'')],
      req_body = ''{}''\<rparr>\<close>

definition pixel_script_request :: request where
  \<open>pixel_script_request =
     \<lparr>req_method = ''POST'',
      req_url = ''https://gamehub-api.secureflex.workers.dev/simulator/executeScript'',
      req_pathname = ''/simulator/executeScript'',
      req_headers = [(''content-type'', ''application/json''), (''user-agent'', ''Pixel 8'')],
      req_body = ''{"gpu_vendor":"Adreno","token":"t","device_model":"Pixel 8"}''\<rparr>\<close>

definition driver_script_request :: request where
  \<open>driver_script_request =
     \<lparr>req_method = ''POST'',
      req_url = ''https://gamehub-api.secureflex.workers.dev/simulator/executeScript'',
      req_pathname = ''/simulator/executeScript'',
      req_headers = [(''content-type'', ''application/json'')],
      req_body = ''{"gpu_driver":512,"token":"t","gpu_vendor":"Adreno"}''\<rparr>\<close>

definition metadata_up :: world where
  "metadata_up =
     example_world []
       [(''https://landscape-api.vgabc.com/simulator/executeScript'',
         \<lparr>up_status = 200, up_headers = [], up_body = ''{}''\<rparr>)]"








definition token_cached :: world where
  \<open>token_cached =
     example_world
       [(''https://token-refresher.example/token-cached'',
         \<lparr>up_status = 200, up_headers = [(''content-type'', ''application/json'')],
          up_body = ''{"token":"REAL"}''\<rparr>)]
       [(''https://landscape-api.vgabc.com/card/getGameDetail'',
         \<lparr>up_status = 200, up_headers = [], up_body = ''{}''\<rparr>)]\<close>

definition form_request :: request where
  "form_request =
     \<lparr>req_method = ''POST'',
      req_url = ''https://gamehub-api.secureflex.workers.dev/card/getGameDetail'',
      req_pathname = ''/card/getGameDetail'',
      req_headers = [(''content-type'', ''text/plain''), (''token'', ''fake-token'')],
      req_body = ''game_id=1''\<rparr>"

definition sentinel_zero_id_request :: request where
  \<open>sentinel_zero_id_request =
     \<lparr>req_method = ''POST'',
      req_url = ''https://gamehub-api.secureflex.workers.dev/card/getNewsGuideDetail'',
      req_pathname = ''/card/getNewsGuideDetail'',
      req_headers = [(''authorization'', ''Bearer fake-token''), (''content-type'', ''application/json'')],
      req_body = ''{"id":0}''\<rparr>\<close>

definition object_type_request :: request where
  \<open>object_type_request =
     \<lparr>req_method = ''POST'',
      req_url = ''https://gamehub-api.secureflex.workers.dev/simulator/v2/getComponentList'',
      req_pathname = ''/simulator/v2/getComponentList'',
      req_headers = [(''content-type'', ''application/json'')],
      req_body = ''{"type":{"toString":1}}''\<rparr>\<close>

definition pixel8_sentinel_request :: request where
  \<open>pixel8_sentinel_request =
     \<lparr>req_method = ''POST'',
      req_url = ''https://gamehub-api.secureflex.workers.dev/simulator/executeScript'',
      req_pathname = ''/simulator/executeScript'',
      req_headers = [(''content-type'', ''application/json'')],
      req_body = ''{"gpu_vendor":"Adreno","token":"fake-token","device_model":"Pixel 8"}''\<rparr>\<close>

definition pixel9_sentinel_request :: request where
  \<open>pixel9_sentinel_request =
     \<lparr>req_method = ''POST'',
      req_url = ''https://gamehub-api.secureflex.workers.dev/simulator/executeScript'',
      req_pathname = ''/simulator/executeScript'',
      req_headers = [(''content-type'', ''application/json'')],
      req_body = ''{"gpu_vendor":"Adreno","token":"fake-token","device_model":"Pixel 9"}''\<rparr>\<close>

definition script_token_cached :: world where
  \<open>script_token_cached =
     example_world
       [(''https://token-refresher.example/token-cached'',
         \<lparr>up_status = 200, up_headers = [(''content-type'', ''application/json'')],
          up_body = ''{"token":"REAL"}''\<rparr>)]
       [(''https://landscape-api.vgabc.com/simulator/executeScript'',
         \<lparr>up_status = 200, up_headers = [], up_body = ''{}''\<rparr>)]\<close>

definition object_vendor_request :: request where
  \<open>object_vendor_request =
     \<lparr>req_method = ''POST'',
      req_url = ''https://gamehub-api.secureflex.workers.dev/simulator/executeScript'',
      req_pathname = ''/simulator/executeScript'',
      req_headers = [(''content-type'', ''application/json'')],
      req_body = ''{"gpu_vendor":{"toString":1}}''\<rparr>\<close>

section \<open>The signature\<close>

lemma sort_keys_of_pairs:
  "distinct (map fst xs) \<Longrightarrow> sort (map fst xs) = map fst (sort_key fst xs)"
  by (rule properties_for_sort) simp_all

lemma map_of_pair_in:
  "distinct (map fst xs) \<Longrightarrow> p \<in> set xs \<Longrightarrow> map_of xs (fst p) = Some (snd p)"
  by (cases p) simp

lemma ToString_flat: "flat_value v \<Longrightarrow> ToString v = Ok (flat_text v)"
  by (cases v) (simp_all add: Number_toString_def)

lemma map_ok_Ok: "(\<And>x. x \<in> set xs \<Longrightarrow> f x = Ok (g x)) \<Longrightarrow> map_ok f xs = Ok (map g xs)"
  by (induction xs) simp_all

lemma map_ok_map: "map_ok f (map g xs) = map_ok (\<lambda>x. f (g x)) xs"
  by (induction xs) simp_all

lemma generateSignature_eq_spec:
  assumes "distinct (map fst params)" and "flat params"
  shows "generateSignature P params = Ok (signature_spec P params)"
proof -
  let ?ps = "filter (\<lambda>p. fst p \<noteq> ''sign'') params"
  have d: "distinct (map fst ?ps)" using assms(1) by (simp add: distinct_map_filter)
  have k: "filter (\<lambda>k. k \<noteq> ''sign'') (map fst params) = map fst ?ps"
    by (simp add: filter_map comp_def)
  have s: "sort (map fst ?ps) = map fst (sort_key fst ?ps)"
    using d by (rule sort_keys_of_pairs)
  have "\<And>p. p \<in> set (sort_key fst ?ps) \<Longrightarrow>
          on_ok (template (map_of params (fst p))) (\<lambda>v. Ok (fst p @ ''='' @ v))
            = Ok (fst p @ ''='' @ flat_text (snd p))"
  proof -
    fix p assume "p \<in> set (sort_key fst ?ps)"
    then have m: "p \<in> set params" by simp
    then have "flat_value (snd p)" using assms(2) by (simp add: flat_def list_all_iff)
    then show "on_ok (template (map_of params (fst p))) (\<lambda>v. Ok (fst p @ ''='' @ v))
                 = Ok (fst p @ ''='' @ flat_text (snd p))"
      using assms(1) m by (simp add: map_of_pair_in ToString_flat)
  qed
  then have e: "map_ok (\<lambda>p. on_ok (template (map_of params (fst p))) (\<lambda>v. Ok (fst p @ ''='' @ v)))
                  (sort_key fst ?ps)
      = Ok (map (\<lambda>p. fst p @ ''='' @ flat_text (snd p)) (sort_key fst ?ps))"
    by (rule map_ok_Ok)
  have c: "map_ok (\<lambda>key. on_ok (template (map_of params key)) (\<lambda>v. Ok (key @ ''='' @ v)))
             (map fst (sort_key fst ?ps))
      = map_ok (\<lambda>p. on_ok (template (map_of params (fst p))) (\<lambda>v. Ok (fst p @ ''='' @ v)))
          (sort_key fst ?ps)"
    by (rule map_ok_map)
  show ?thesis
    by (simp only: generateSignature_def signature_spec_def Let_def k s c e on_ok.simps)
qed

lemma generateSignature_perm:
  assumes "distinct (map fst params)" "mset params' = mset params"
  shows "generateSignature P params' = generateSignature P params"
proof -
  have k: "mset (map fst params') = mset (map fst params)"
    using assms(2) by simp
  have d': "distinct (map fst params')"
    using mset_eq_imp_distinct_iff [OF k] assms(1) by simp
  have "set params' = set params" using assms(2) by (rule mset_eq_setD)
  then have m: "map_of params' = map_of params"
    using assms(1) d' by (simp add: map_of_inject_set)
  have f: "mset (filter (\<lambda>k. k \<noteq> ''sign'') (map fst params))
      = mset (filter (\<lambda>k. k \<noteq> ''sign'') (map fst params'))"
    using k by (simp only: mset_filter)
  have "sort (filter (\<lambda>k. k \<noteq> ''sign'') (map fst params'))
      = sort (filter (\<lambda>k. k \<noteq> ''sign'') (map fst params))"
    by (rule properties_for_sort) (simp_all only: mset_sort f sorted_sort)
  then show ?thesis
    by (simp only: generateSignature_def Let_def m)
qed

text \<open>
  C4. The signature does not depend on the order in which the object's properties were
  inserted: for an object (a property list with distinct keys) and any permutation of
  its properties, \<open>generateSignature\<close> comes to the same (the same string, or the same
  throw); and for a flat object it returns the lower-cased digest of the pairs other
  than \<open>sign\<close>, sorted by key, written \<open>key=value\<close> and joined with \<open>&\<close>, followed by
  \<open>&\<close> and the shared secret.
\<close>

theorem generateSignature_order_independent:
  assumes "distinct (map fst params)" and "mset params' = mset params"
  shows "generateSignature P params' = generateSignature P params \<and>
         (flat params \<longrightarrow> generateSignature P params = Ok (signature_spec P params))"
proof
  show "generateSignature P params' = generateSignature P params"
    using assms(1,2) by (rule generateSignature_perm)
  show "flat params \<longrightarrow> generateSignature P params = Ok (signature_spec P params)"
    using assms(1) by (simp add: generateSignature_eq_spec)
qed

theorem generateSignature_order_independent_witness:
  "generateSignature example_platform
     [(''game_id'', JStr ''7''), (''token'', JStr ''t''), (''sign'', JStr ''old'')]
   = generateSignature example_platform
       [(''token'', JStr ''t''), (''sign'', JStr ''old''), (''game_id'', JStr ''7'')] \<and>
   generateSignature example_platform
     [(''token'', JStr ''t''), (''sign'', JStr ''old''), (''game_id'', JStr ''7'')]
   = Ok (signature_spec example_platform
          [(''token'', JStr ''t''), (''sign'', JStr ''old''), (''game_id'', JStr ''7'')])"
  using generateSignature_order_independent
    [of "[(''token'', JStr ''t''), (''sign'', JStr ''old''), (''game_id'', JStr ''7'')]"
        "[(''game_id'', JStr ''7''), (''token'', JStr ''t''), (''sign'', JStr ''old'')]"
        example_platform]
  by (simp add: flat_def)

section \<open>The interception\<close>

lemma on_ok_Ok_iff: "on_ok x k = Ok y \<longleftrightarrow> (\<exists>a. x = Ok a \<and> k a = Ok y)"
  by (cases x) auto

lemma substitute_keeps:
  assumes "substitute P request a t b tok = Ok request'"
  shows "req_method request' = req_method request \<and> req_pathname request' = req_pathname request
         \<and> req_url request' = req_url request"
  using assms by (auto simp: substitute_def Let_def on_ok_Ok_iff split: if_splits option.splits)

lemma intercept_keeps:
  assumes "intercept P W E request = (evs, Ok request')"
  shows "req_method request' = req_method request \<and> req_pathname request' = req_pathname request
         \<and> req_url request' = req_url request"
proof (cases "request' = request")
  case True
  then show ?thesis by simp
next
  case False
  with assms obtain a t b tok where "substitute P request a t b tok = Ok request'"
    by (auto simp: intercept_def Let_def split: if_splits prod.splits result.splits option.splits)
  then show ?thesis by (rule substitute_keeps)
qed

lemma resolve_token_events:
  "Fetch c \<in> set (fst (resolve_token P W E)) \<Longrightarrow>
     c = (fetch_url (TOKEN_REFRESHER_URL E @ ''/token''))
           \<lparr>f_headers := [(''X-Worker-Auth'', ''gamehub-internal-token-fetch-2025'')]\<rparr>"
  by (auto simp: resolve_token_def Let_def split: option.splits sum.splits if_splits result.splits)

lemma intercept_events:
  assumes "Fetch c \<in> set (fst (intercept P W E request))"
  shows "c = (fetch_url (TOKEN_REFRESHER_URL E @ ''/token''))
           \<lparr>f_headers := [(''X-Worker-Auth'', ''gamehub-internal-token-fetch-2025'')]\<rparr>"
proof -
  from assms have "Fetch c \<in> set (fst (resolve_token P W E))"
    by (auto simp: intercept_def Let_def split: if_splits prod.splits result.splits option.splits)
  then show ?thesis by (rule resolve_token_events)
qed

text \<open>
  C6. A request that carries the sentinel nowhere the interceptor looks (not inside the
  \<open>Authorization\<close> header, not as the \<open>token\<close> header, not inside the body text of a
  POST with a JSON content type) goes on to the routes as it came: the interceptor
  returns the very same request, and causes no event (no cache lookup, no fetch).
\<close>

theorem intercept_without_sentinel:
  assumes "\<not> opt_includes (header_get (req_headers request) ''Authorization'') ''fake-token''"
    and "header_get (req_headers request) ''token'' \<noteq> Some ''fake-token''"
    and "\<not> (req_method request = ''POST'' \<and>
            opt_includes (header_get (req_headers request) ''Content-Type'') ''application/json'' \<and>
            str_includes (req_body request) ''fake-token'')"
  shows "intercept P W E request = ([], Ok request) \<and>
         pipeline P W E request = dispatch P W request"
proof -
  have i: "intercept P W E request = ([], Ok request)"
    using assms by (auto simp: intercept_def Let_def)
  show ?thesis using i by (simp add: pipeline_def split: prod.splits)
qed

theorem intercept_without_sentinel_witness:
  "intercept example_platform (example_world [] []) example_env plain_request
     = ([], Ok plain_request) \<and>
   pipeline example_platform (example_world [] []) example_env plain_request
     = dispatch example_platform (example_world [] []) plain_request"
proof -
  have h1: "\<not> opt_includes (header_get (req_headers plain_request) ''Authorization'') ''fake-token''"
    by code_simp
  have h2: "header_get (req_headers plain_request) ''token'' \<noteq> Some ''fake-token''"
    by code_simp
  have h3: "\<not> (req_method plain_request = ''POST'' \<and>
            opt_includes (header_get (req_headers plain_request) ''Content-Type'') ''application/json'' \<and>
            str_includes (req_body plain_request) ''fake-token'')"
    by code_simp
  show ?thesis by (rule intercept_without_sentinel [OF h1 h2 h3])
qed

section \<open>The error boundary\<close>

text \<open>
  C7. When a step of the pipeline throws on a request that is not a preflight (the
  interception throws, or it passes a request on and the route that request reaches,
  the fallback included, throws), the handler answers with status 500, the body
  \<open>{code: 500, msg: "Error: <message>"}\<close> with the message thrown, a JSON content type
  and the CORS headers.
\<close>

theorem fetch_catches_throw:
  assumes "req_method request \<noteq> ''OPTIONS''"
    and "intercept P W E request = (evs, Throw message) \<or>
         (\<exists>evs1 evs2 request'.
            intercept P W E request = (evs1, Ok request') \<and>
            dispatch P W request' = (evs2, Throw message) \<and> evs = evs1 @ evs2)"
  shows "fetch P W E request =
           (evs, Ok \<lparr>resp_status = 500,
                     resp_headers =
                       [(''Content-Type'', ''application/json''),
                        (''Access-Control-Allow-Origin'', ''*''),
                        (''Access-Control-Allow-Methods'', ''GET, POST, OPTIONS''),
                        (''Access-Control-Allow-Headers'', ''Content-Type'')],
                     resp_body =
                       JSON_stringify P
                         (JObj [(''code'', JNum 500), (''msg'', JStr (''Error: '' @ message))])\<rparr>)"
proof -
  from assms(2) have "pipeline P W E request = (evs, Throw message)"
    by (auto simp: pipeline_def)
  with assms(1) show ?thesis
    by (simp add: fetch_def json_response_def corsHeaders_def)
qed

theorem fetch_catches_throw_witness:
  "fetch example_platform (example_world [] []) example_env bad_json_request =
     ([], Ok \<lparr>resp_status = 500,
              resp_headers =
                [(''Content-Type'', ''application/json''),
                 (''Access-Control-Allow-Origin'', ''*''),
                 (''Access-Control-Allow-Methods'', ''GET, POST, OPTIONS''),
                 (''Access-Control-Allow-Headers'', ''Content-Type'')],
              resp_body =
                JSON_stringify example_platform
                  (JObj [(''code'', JNum 500), (''msg'', JStr (''Error: '' @ ''Unexpected token''))])\<rparr>)"
proof -
  have h1: "req_method bad_json_request \<noteq> ''OPTIONS''"
    by code_simp
  have i: "intercept example_platform (example_world [] []) example_env bad_json_request
             = ([], Ok bad_json_request)"
    by code_simp
  have d: "dispatch example_platform (example_world [] []) bad_json_request
             = ([], Throw ''Unexpected token'')"
    by code_simp
  have h2: "intercept example_platform (example_world [] []) example_env bad_json_request
              = ([], Throw ''Unexpected token'') \<or>
         (\<exists>evs1 evs2 request'.
            intercept example_platform (example_world [] []) example_env bad_json_request
              = (evs1, Ok request') \<and>
            dispatch example_platform (example_world [] []) request' = (evs2, Throw ''Unexpected token'') \<and>
            [] = evs1 @ evs2)"
    using i d by simp
  show ?thesis by (rule fetch_catches_throw [OF h1 h2])
qed

section \<open>The news routes\<close>

lemma dispatch_getNewsGuideDetail:
  "req_pathname r = ''/card/getNewsGuideDetail'' \<Longrightarrow> req_method r = ''POST'' \<Longrightarrow>
   dispatch P W r = card_getNewsGuideDetail P W r"
  by (simp add: dispatch_def)

text \<open>
  C10, as the claim states it, fails: the interception runs before every route, and
  when it throws, the answer is the 500 of the error boundary. A POST whose body has the
  \<open>id\<close> 0 and whose \<open>Authorization\<close> header carries the sentinel, sent while the token
  refresher cannot be reached, is answered with 500, after a fetch to the refresher.
\<close>

theorem getNewsGuideDetail_falsy_id_interception_throws:
  \<open>fetch example_platform (example_world [] []) example_env sentinel_zero_id_request =
     ([CacheMatch ''https://token-refresher.example/token-cached'',
       Fetch \<lparr>f_url = ''https://token-refresher.example/token'', f_method = ''GET'',
              f_headers = [(''X-Worker-Auth'', ''gamehub-internal-token-fetch-2025'')],
              f_body = None, f_cf = None\<rparr>],
      Ok \<lparr>resp_status = 500,
          resp_headers = (''Content-Type'', ''application/json'') # corsHeaders,
          resp_body = ''{"code":500,"msg":"Error: Network connection lost."}''\<rparr>) \<and>
   JSON_parse example_platform (req_body sentinel_zero_id_request) = Inr (JObj [(''id'', JNum 0)])\<close>
  by code_simp

text \<open>
  C10, amended. For every POST to \<open>/card/getNewsGuideDetail\<close> on which the interception
  does not throw, and whose body, as the interception passes it on to the route, parses
  to a JSON value with an \<open>id\<close> that is falsy (\<open>0\<close>, the empty string, \<open>false\<close>,
  \<open>null\<close>), the answer
  has status 400 and the \<open>Missing id parameter\<close> envelope, and the route fetches
  nothing: the events of the run are those of the interception alone, whose only fetch,
  if any, is the one to the token refresher. The presence of \<open>id\<close> is decided by its
  truthiness.
\<close>

theorem getNewsGuideDetail_falsy_id:
  assumes "req_method request = ''POST''"
    and "req_pathname request = ''/card/getNewsGuideDetail''"
    and "intercept P W E request = (evs, Ok request')"
    and "JSON_parse P (req_body request') = Inr body"
    and "field body ''id'' = Some v"
    and "\<not> truthy v"
  shows "fetch P W E request =
           (evs, Ok \<lparr>resp_status = 400,
                     resp_headers = (''Content-Type'', ''application/json'') # corsHeaders,
                     resp_body =
                       JSON_stringify P
                         (JObj [(''code'', JNum 400), (''msg'', JStr ''Missing id parameter''),
                                (''time'', JStr ''''), (''data'', JNull)])\<rparr>) \<and>
         (\<forall>c. Fetch c \<in> set evs \<longrightarrow> f_url c = TOKEN_REFRESHER_URL E @ ''/token'')"
proof -
  have k: "req_method request' = ''POST''" "req_pathname request' = ''/card/getNewsGuideDetail''"
    using intercept_keeps [OF assms(3)] assms(1,2) by simp_all
  have nn: "body \<noteq> JNull" using assms(5) by auto
  have "card_getNewsGuideDetail P W request' =
          ([], Ok (json_response P 400
                    (JObj [(''code'', JNum 400), (''msg'', JStr ''Missing id parameter''),
                           (''time'', JStr []), (''data'', JNull)])))"
    using assms(4,5,6) nn
    by (simp add: card_getNewsGuideDetail_def parse_json_def get_prop_def)
  then have "pipeline P W E request =
          (evs, Ok (json_response P 400
                    (JObj [(''code'', JNum 400), (''msg'', JStr ''Missing id parameter''),
                           (''time'', JStr []), (''data'', JNull)])))"
    using assms(3) k by (simp add: pipeline_def dispatch_getNewsGuideDetail)
  then have 1: "fetch P W E request =
          (evs, Ok (json_response P 400
                    (JObj [(''code'', JNum 400), (''msg'', JStr ''Missing id parameter''),
                           (''time'', JStr []), (''data'', JNull)])))"
    using assms(1) by (simp add: fetch_def)
  have 2: "\<forall>c. Fetch c \<in> set evs \<longrightarrow> f_url c = TOKEN_REFRESHER_URL E @ ''/token''"
  proof (intro allI impI)
    fix c assume "Fetch c \<in> set evs"
    then have "Fetch c \<in> set (fst (intercept P W E request))" using assms(3) by simp
    from intercept_events [OF this] show "f_url c = TOKEN_REFRESHER_URL E @ ''/token''"
      by (simp add: fetch_url_def)
  qed
  show ?thesis using 1 2 by (simp add: json_response_def)
qed

theorem getNewsGuideDetail_falsy_id_witness:
  "fetch example_platform (example_world [] []) example_env zero_id_request =
     ([], Ok \<lparr>resp_status = 400,
              resp_headers = (''Content-Type'', ''application/json'') # corsHeaders,
              resp_body =
                JSON_stringify example_platform
                  (JObj [(''code'', JNum 400), (''msg'', JStr ''Missing id parameter''),
                         (''time'', JStr ''''), (''data'', JNull)])\<rparr>)"
proof -
  have h1: "req_method zero_id_request = ''POST''" by code_simp
  have h2: "req_pathname zero_id_request = ''/card/getNewsGuideDetail''" by code_simp
  have h3: "intercept example_platform (example_world [] []) example_env zero_id_request
              = ([], Ok zero_id_request)"
    by code_simp
  have h4: "JSON_parse example_platform (req_body zero_id_request) = Inr (JObj [(''id'', JNum 0)])"
    by code_simp
  have h5: "field (JObj [(''id'', JNum 0)]) ''id'' = Some (JNum 0)" by code_simp
  have h6: "\<not> truthy (JNum 0)" by simp
  from getNewsGuideDetail_falsy_id [OF h1 h2 h3 h4 h5 h6] show ?thesis by simp
qed

section \<open>The news list\<close>

lemma dispatch_getNewsList:
  "req_pathname r = ''/card/getNewsList'' \<Longrightarrow> req_method r = ''POST'' \<Longrightarrow>
   dispatch P W r = card_getNewsList P W r"
  by (simp add: dispatch_def)

text \<open>
  C1, as the claim states it, fails: when the news service answers without success the
  body returned carries the error code 500 and the message \<open>Failed to fetch news\<close>;
  only the HTTP status (200, by default) and the empty \<open>data\<close> list look like success.
\<close>

theorem getNewsList_failure_is_error_coded:
  \<open>fetch example_platform news_down example_env news_request =
     ([Fetch (fetch_url
         ''https://gamehub-news-aggregator.secureflex.workers.dev/api/news/list?page=1&page_size=4'')],
      Ok \<lparr>resp_status = 200,
          resp_headers = (''Content-Type'', ''application/json'') # corsHeaders,
          resp_body = ''{"code":500,"msg":"Failed to fetch news","time":"","data":[]}''\<rparr>)\<close>
  by code_simp

text \<open>
  C1, amended. For every POST to \<open>/card/getNewsList\<close> that the interception passes on
  with a body that parses to a value other than \<open>null\<close>, when the fetch to the news
  service (at the list address, with the texts of the page and of the page size)
  returns a status outside 200..299, the handler answers with HTTP status 200 and the
  fixed envelope \<open>{code: 500, msg: "Failed to fetch news", time: "", data: []}\<close> (an
  error-coded envelope with an empty list), a JSON content type and the CORS headers.
\<close>

theorem getNewsList_upstream_failure:
  assumes "req_method request = ''POST''"
    and "req_pathname request = ''/card/getNewsList''"
    and "intercept P W E request = (evs, Ok request')"
    and "JSON_parse P (req_body request') = Inr body"
    and "body \<noteq> JNull"
    and "ToString (or_else (field body ''page'') (JNum 1)) = Ok pageText"
    and "ToString (or_else (field body ''page_size'') (JNum 4)) = Ok pageSizeText"
    and "call = fetch_url (NEWS_AGGREGATOR_URL @ ''/api/news/list?page='' @ pageText
                   @ ''&page_size='' @ pageSizeText)"
    and "net W call = Inr newsResponse"
    and "\<not> ok newsResponse"
  shows "fetch P W E request =
           (evs @ [Fetch call],
            Ok \<lparr>resp_status = 200,
                resp_headers =
                  [(''Content-Type'', ''application/json''),
                   (''Access-Control-Allow-Origin'', ''*''),
                   (''Access-Control-Allow-Methods'', ''GET, POST, OPTIONS''),
                   (''Access-Control-Allow-Headers'', ''Content-Type'')],
                resp_body =
                  JSON_stringify P
                    (JObj [(''code'', JNum 500), (''msg'', JStr ''Failed to fetch news''),
                           (''time'', JStr ''''), (''data'', JArr [])])\<rparr>)"
proof -
  have k: "req_method request' = ''POST''" "req_pathname request' = ''/card/getNewsList''"
    using intercept_keeps [OF assms(3)] assms(1,2) by simp_all
  have "card_getNewsList P W request' =
          ([Fetch call],
           Ok (json_response P 200
                (JObj [(''code'', JNum 500), (''msg'', JStr ''Failed to fetch news''),
                       (''time'', JStr []), (''data'', JArr [])])))"
    using assms(4-10)
    by (simp add: card_getNewsList_def parse_json_def get_prop_def do_fetch_def Let_def)
  then have "pipeline P W E request =
          (evs @ [Fetch call],
           Ok (json_response P 200
                (JObj [(''code'', JNum 500), (''msg'', JStr ''Failed to fetch news''),
                       (''time'', JStr []), (''data'', JArr [])])))"
    using assms(3) k by (simp add: pipeline_def dispatch_getNewsList)
  then show ?thesis
    using assms(1) by (simp add: fetch_def json_response_def corsHeaders_def)
qed

theorem getNewsList_upstream_failure_witness:
  "fetch example_platform news_down example_env news_request =
     ([] @ [Fetch (fetch_url (NEWS_AGGREGATOR_URL @ ''/api/news/list?page='' @ ''1''
                   @ ''&page_size='' @ ''4''))],
      Ok \<lparr>resp_status = 200,
          resp_headers =
            [(''Content-Type'', ''application/json''),
             (''Access-Control-Allow-Origin'', ''*''),
             (''Access-Control-Allow-Methods'', ''GET, POST, OPTIONS''),
             (''Access-Control-Allow-Headers'', ''Content-Type'')],
          resp_body =
            JSON_stringify example_platform
              (JObj [(''code'', JNum 500), (''msg'', JStr ''Failed to fetch news''),
                     (''time'', JStr ''''), (''data'', JArr [])])\<rparr>)"
proof -
  have h1: "req_method news_request = ''POST''" by code_simp
  have h2: "req_pathname news_request = ''/card/getNewsList''" by code_simp
  have h3: "intercept example_platform news_down example_env news_request = ([], Ok news_request)"
    by code_simp
  have h4: "JSON_parse example_platform (req_body news_request) = Inr (JObj [])" by code_simp
  have h5: "JObj [] \<noteq> JNull" by simp
  have t1: "ToString (or_else (field (JObj []) ''page'') (JNum 1)) = Ok ''1''" by code_simp
  have t2: "ToString (or_else (field (JObj []) ''page_size'') (JNum 4)) = Ok ''4''" by code_simp
  have h7: "net news_down (fetch_url (NEWS_AGGREGATOR_URL @ ''/api/news/list?page='' @ ''1''
                   @ ''&page_size='' @ ''4''))
            = Inr unavailable"
    by code_simp
  have h8: "\<not> ok unavailable" by code_simp
  show ?thesis by (rule getNewsList_upstream_failure [OF h1 h2 h3 h4 h5 t1 t2 refl h7 h8])
qed

section \<open>The type of a component list\<close>

lemma show_nat_last: "show_nat n \<noteq> [] \<and> last (show_nat n) = digit_char (n mod 10)"
  by (subst show_nat.simps, subst (2) show_nat.simps) simp

lemma show_nat_small: "n < 10 \<Longrightarrow> show_nat n = [digit_char n]"
  by (subst show_nat.simps) simp

lemma show_nat_big: "10 \<le> n \<Longrightarrow> 2 \<le> length (show_nat n)"
proof -
  assume "10 \<le> n"
  then have "show_nat n = show_nat (n div 10) @ [digit_char (n mod 10)]"
    by (subst show_nat.simps) simp
  moreover have "show_nat (n div 10) \<noteq> []" using show_nat_last by blast
  ultimately show ?thesis by (cases "show_nat (n div 10)") simp_all
qed

lemma of_char_digit_char: "d < 10 \<Longrightarrow> of_char (digit_char d) = 48 + d"
  by (simp add: digit_char_def)

lemma show_int_last: "\<exists>d<10. show_int i \<noteq> [] \<and> of_char (last (show_int i)) = (48 + d :: nat)"
proof -
  have "show_int i = show_nat (nat i) \<or> show_int i = CHR ''-'' # show_nat (nat (- i))"
    by (simp add: show_int_def)
  then obtain m where m: "show_int i = show_nat m \<or> show_int i = CHR ''-'' # show_nat m"
    by blast
  have "m mod 10 < 10" by simp
  moreover have "show_int i \<noteq> []" using m show_nat_last by auto
  moreover have "last (show_int i) = digit_char (m mod 10)"
    using m show_nat_last by auto
  ultimately show ?thesis using of_char_digit_char by metis
qed

lemma show_int_single:
  assumes "show_int i = [c]"
  shows "0 \<le> i \<and> i < 10 \<and> of_char c = (48 + nat i)"
proof -
  have nn: "0 \<le> i"
  proof (rule ccontr)
    assume "\<not> 0 \<le> i"
    then have "show_int i = CHR ''-'' # show_nat (nat (- i))" by (simp add: show_int_def)
    with assms show_nat_last show False by auto
  qed
  then have s: "show_int i = show_nat (nat i)" by (simp add: show_int_def)
  have lt: "nat i < 10"
  proof (rule ccontr)
    assume "\<not> nat i < 10"
    then have "2 \<le> length (show_nat (nat i))" by (simp add: show_nat_big)
    moreover have "length (show_int i) = 1" using assms by simp
    ultimately show False using s by simp
  qed
  with s assms have "c = digit_char (nat i)" by (simp add: show_nat_small)
  with lt nn show ?thesis by (simp add: of_char_digit_char)
qed

lemma manifest_of_unmapped:
  assumes "ToString v = Ok k"
    and "k \<notin> set (map fst TYPE_TO_MANIFEST)" and "k \<notin> set Object_prototype_members"
  shows "manifest_of P v = Ok None"
proof -
  from assms(2) have "map_of TYPE_TO_MANIFEST k = None"
    by (simp add: map_of_eq_None_iff)
  with assms(1,3) show ?thesis by (simp add: manifest_of_def)
qed

lemma manifest_of_number:
  assumes "n < 1 \<or> 7 < n" and "- 9007199254740991 \<le> n" and "n \<le> 9007199254740991"
  shows "manifest_of P (JNum n) = Ok None"
proof -
  have t: "ToString (JNum n) = Ok (show_int n)"
    using assms(2,3) by (simp add: Number_toString_def)
  have a: "show_int n \<notin> set (map fst TYPE_TO_MANIFEST)"
  proof
    assume "show_int n \<in> set (map fst TYPE_TO_MANIFEST)"
    then obtain c where c: "show_int n = [c]" "c \<in> set ''1234567''"
      by (auto simp: TYPE_TO_MANIFEST_def)
    from show_int_single [OF c(1)] c(2) assms(1) show False by auto
  qed
  have b: "show_int n \<notin> set Object_prototype_members"
  proof
    assume "show_int n \<in> set Object_prototype_members"
    then have "last (show_int n) \<in> set ''ryfeg_''"
      by (auto simp: Object_prototype_members_def)
    moreover obtain d where "d < 10" "of_char (last (show_int n)) = (48 + d :: nat)"
      using show_int_last by blast
    ultimately show False by auto
  qed
  from t a b show ?thesis by (rule manifest_of_unmapped)
qed

lemma dispatch_getComponentList:
  "req_pathname r = ''/simulator/v2/getComponentList'' \<Longrightarrow> req_method r = ''POST'' \<Longrightarrow>
   dispatch P W r = simulator_v2_getComponentList P W r"
  by (simp add: dispatch_def)

text \<open>
  C9, as the claim states it, fails: \<open>TYPE_TO_MANIFEST[type]\<close> reads the property whose
  key is the string of \<open>type\<close>, the table's own or an inherited one. A \<open>type\<close> that is
  not one of the integers 1 to 7 passes the check when its string is one of \<open>1\<close> to
  \<open>7\<close>, or names a member of \<open>Object.prototype\<close>. With the string \<open>"1"\<close> the handler
  fetches the first manifest and answers 200; with \<open>"constructor"\<close> it fetches the base
  followed by the text of a function, and answers 500 when that fails. And a \<open>type\<close>
  that has no string, an object with a property \<open>toString\<close>, makes the lookup throw:
  the answer is the 500 of the error boundary.
\<close>

theorem getComponentList_unmapped_type_accepted:
  \<open>fetch example_platform github_up example_env string_type_request =
     ([Fetch (fetch_url
         ''https://raw.githubusercontent.com/gamehublite/gamehub_api/main/components/box64_manifest'')],
      Ok \<lparr>resp_status = 200,
          resp_headers = (''Content-Type'', ''application/json'') # corsHeaders,
          resp_body = ''{"data":{"list":[1,2,3],"page":1,"pageSize":10,"total":3}}''\<rparr>) \<and>
   fetch example_platform github_up example_env constructor_type_request =
     ([Fetch (fetch_url
         ''https://raw.githubusercontent.com/gamehublite/gamehub_api/mainfunction Object() { [native code] }'')],
      Ok \<lparr>resp_status = 500,
          resp_headers = (''Content-Type'', ''application/json'') # corsHeaders,
          resp_body = ''{"code":500,"msg":"Failed to fetch manifest"}''\<rparr>) \<and>
   fetch example_platform github_up example_env object_type_request =
     ([],
      Ok \<lparr>resp_status = 500,
          resp_headers = (''Content-Type'', ''application/json'') # corsHeaders,
          resp_body = ''{"code":500,"msg":"Error: Cannot convert object to primitive value"}''\<rparr>)\<close>
  by code_simp

text \<open>
  C9, amended. For every POST to \<open>/simulator/v2/getComponentList\<close> that the
  interception passes on with a body that parses to a value other than \<open>null\<close>, when
  \<open>type\<close> is absent, or is an integer other than 1 to 7 (up to \<open>2^53 - 1\<close> in
  magnitude), or is any other value that is falsy, or that has a string which is
  neither one of \<open>1\<close> to \<open>7\<close> nor the name of a member of \<open>Object.prototype\<close>, the
  handler answers with status 400 and \<open>{code: 400, msg: 'Invalid type parameter'}\<close>, and
  the route fetches nothing: the events of the run are those of the interception, whose
  only fetch, if any, is the one to the token refresher.
\<close>

theorem getComponentList_invalid_type:
  assumes "req_method request = ''POST''"
    and "req_pathname request = ''/simulator/v2/getComponentList''"
    and "intercept P W E request = (evs, Ok request')"
    and "JSON_parse P (req_body request') = Inr body"
    and "body \<noteq> JNull"
    and "field body ''type'' = None \<or>
         (\<exists>n. field body ''type'' = Some (JNum n) \<and> (n < 1 \<or> 7 < n) \<and>
              - 9007199254740991 \<le> n \<and> n \<le> 9007199254740991) \<or>
         (\<exists>v. field body ''type'' = Some v \<and>
              (\<not> truthy v \<or>
               (\<exists>k. ToString v = Ok k \<and>
                    k \<notin> set (map fst TYPE_TO_MANIFEST) \<and>
                    k \<notin> set Object_prototype_members)))"
  shows "fetch P W E request =
           (evs, Ok \<lparr>resp_status = 400,
                     resp_headers = (''Content-Type'', ''application/json'') # corsHeaders,
                     resp_body =
                       JSON_stringify P
                         (JObj [(''code'', JNum 400), (''msg'', JStr ''Invalid type parameter'')])\<rparr>) \<and>
         (\<forall>c. Fetch c \<in> set evs \<longrightarrow> f_url c = TOKEN_REFRESHER_URL E @ ''/token'')"
proof -
  have k: "req_method request' = ''POST''"
    "req_pathname request' = ''/simulator/v2/getComponentList''"
    using intercept_keeps [OF assms(3)] assms(1,2) by simp_all
  have v: "valid_type P (field body ''type'') = Ok None"
    using assms(6) by (auto simp: manifest_of_number manifest_of_unmapped)
  have "simulator_v2_getComponentList P W request' =
          ([], Ok (json_response P 400
                    (JObj [(''code'', JNum 400), (''msg'', JStr ''Invalid type parameter'')])))"
    using assms(4,5) v
    by (simp add: simulator_v2_getComponentList_def parse_json_def get_prop_def Let_def)
  then have "pipeline P W E request =
          (evs, Ok (json_response P 400
                    (JObj [(''code'', JNum 400), (''msg'', JStr ''Invalid type parameter'')])))"
    using assms(3) k by (simp add: pipeline_def dispatch_getComponentList)
  then have 1: "fetch P W E request =
          (evs, Ok (json_response P 400
                    (JObj [(''code'', JNum 400), (''msg'', JStr ''Invalid type parameter'')])))"
    using assms(1) by (simp add: fetch_def)
  have 2: "\<forall>c. Fetch c \<in> set evs \<longrightarrow> f_url c = TOKEN_REFRESHER_URL E @ ''/token''"
  proof (intro allI impI)
    fix c assume "Fetch c \<in> set evs"
    then have "Fetch c \<in> set (fst (intercept P W E request))" using assms(3) by simp
    from intercept_events [OF this] show "f_url c = TOKEN_REFRESHER_URL E @ ''/token''"
      by (simp add: fetch_url_def)
  qed
  show ?thesis using 1 2 by (simp add: json_response_def)
qed

theorem getComponentList_invalid_type_witness:
  "fetch example_platform github_up example_env unmapped_type_request =
     ([], Ok \<lparr>resp_status = 400,
              resp_headers = (''Content-Type'', ''application/json'') # corsHeaders,
              resp_body =
                JSON_stringify example_platform
                  (JObj [(''code'', JNum 400), (''msg'', JStr ''Invalid type parameter'')])\<rparr>)"
proof -
  have h1: "req_method unmapped_type_request = ''POST''" by code_simp
  have h2: "req_pathname unmapped_type_request = ''/simulator/v2/getComponentList''" by code_simp
  have h3: "intercept example_platform github_up example_env unmapped_type_request
              = ([], Ok unmapped_type_request)"
    by code_simp
  have h4: "JSON_parse example_platform (req_body unmapped_type_request)
              = Inr (JObj [(''type'', JNum 99)])"
    by code_simp
  have h5: "JObj [(''type'', JNum 99)] \<noteq> JNull" by simp
  have h6: "field (JObj [(''type'', JNum 99)]) ''type'' = None \<or>
         (\<exists>n. field (JObj [(''type'', JNum 99)]) ''type'' = Some (JNum n) \<and> (n < 1 \<or> 7 < n) \<and>
              - 9007199254740991 \<le> n \<and> n \<le> 9007199254740991) \<or>
         (\<exists>v. field (JObj [(''type'', JNum 99)]) ''type'' = Some v \<and>
              (\<not> truthy v \<or>
               (\<exists>k. ToString v = Ok k \<and>
                    k \<notin> set (map fst TYPE_TO_MANIFEST) \<and>
                    k \<notin> set Object_prototype_members)))"
    by simp
  from getComponentList_invalid_type [OF h1 h2 h3 h4 h5 h6] show ?thesis by simp
qed

section \<open>Pagination\<close>

lemma map_of_obj_set: "map_of (obj_set k v kvs) k' = (if k' = k then Some v else map_of kvs k')"
  by (induction kvs) auto

lemma map_of_obj_delete: "map_of (obj_delete k kvs) k' = (if k' = k then None else map_of kvs k')"
  by (induction kvs) (auto simp: obj_delete_def)

lemma length_slice_page:
  assumes "1 \<le> p" "1 \<le> s"
  shows "int (length (slice xs ((p - 1) * s) ((p - 1) * s + s)))
           = min s (max 0 (int (length xs) - (p - 1) * s))"
proof -
  have "0 \<le> (p - 1) * s" using assms by simp
  then show ?thesis using assms(2) by (auto simp: slice_def Let_def min_def max_def)
qed

lemma field_set_data:
  "field m ''data'' = Some d \<Longrightarrow> field (set_data m dk) ''data'' = Some (JObj dk)"
  by (cases m) (simp_all add: map_of_obj_set)

lemma rename_components_list:
  assumes "field manifestData ''data'' = Some (JObj dk)"
    and "map_of dk ''components'' = Some (JArr xs) \<or>
         ((map_of dk ''components'' = None \<or>
           (\<exists>c. map_of dk ''components'' = Some c \<and> \<not> truthy c)) \<and>
          map_of dk ''list'' = Some (JArr xs))"
  shows "\<exists>renamed dk1. rename_components manifestData = Ok renamed \<and>
           field renamed ''data'' = Some (JObj dk1) \<and>
           map_of dk1 ''list'' = Some (JArr xs) \<and>
           map_of dk1 ''total'' = map_of dk ''total''"
proof -
  have nn: "manifestData \<noteq> JNull" using assms(1) by auto
  from assms(2) show ?thesis
  proof
    assume c: "map_of dk ''components'' = Some (JArr xs)"
    let ?dk1 = "obj_delete ''components'' (obj_set ''list'' (JArr xs) dk)"
    have "rename_components manifestData = Ok (set_data manifestData ?dk1)"
      using assms(1) nn c by (simp add: rename_components_def get_prop_def)
    moreover have "field (set_data manifestData ?dk1) ''data'' = Some (JObj ?dk1)"
      using assms(1) by (rule field_set_data)
    moreover have "map_of ?dk1 ''list'' = Some (JArr xs)"
      by (simp add: map_of_obj_delete map_of_obj_set)
    moreover have "map_of ?dk1 ''total'' = map_of dk ''total''"
      by (simp add: map_of_obj_delete map_of_obj_set)
    ultimately show ?thesis by blast
  next
    assume c: "(map_of dk ''components'' = None \<or>
           (\<exists>c. map_of dk ''components'' = Some c \<and> \<not> truthy c)) \<and>
          map_of dk ''list'' = Some (JArr xs)"
    then have "rename_components manifestData = Ok manifestData"
      using assms(1) nn by (auto simp: rename_components_def get_prop_def)
    with assms(1) c show ?thesis by blast
  qed
qed

lemma paginate_list:
  assumes "field renamed ''data'' = Some (JObj dk1)"
    and "map_of dk1 ''list'' = Some (JArr xs)"
    and "1 \<le> p" and "1 \<le> s"
  shows "\<exists>paged dk'. paginate renamed (JNum p) (JNum s) = Ok paged \<and>
           field paged ''data'' = Some (JObj dk') \<and>
           (\<exists>ys. map_of dk' ''list'' = Some (JArr ys) \<and>
                 int (length ys) = min s (max 0 (int (length xs) - (p - 1) * s))) \<and>
           map_of dk' ''total'' = Some (or_else (map_of dk1 ''total'') (JNum (int (length xs)))) \<and>
           map_of dk' ''page'' = Some (JNum p) \<and>
           map_of dk' ''pageSize'' = Some (JNum s)"
proof -
  have nn: "renamed \<noteq> JNull" using assms(1) by auto
  let ?ys = "slice xs ((p - 1) * s) ((p - 1) * s + s)"
  let ?dk' = "obj_set ''total'' (or_else (map_of dk1 ''total'') (JNum (int (length xs))))
               (obj_set ''pageSize'' (JNum s)
                 (obj_set ''page'' (JNum p)
                   (obj_set ''list'' (JArr ?ys) dk1)))"
  have "paginate_data dk1 (JArr xs) (JNum p) (JNum s) = Ok ?dk'"
    by (simp add: paginate_data_def Let_def)
  then have "paginate renamed (JNum p) (JNum s) = Ok (set_data renamed ?dk')"
    using assms(1,2) nn by (simp add: paginate_def get_prop_def)
  moreover have "field (set_data renamed ?dk') ''data'' = Some (JObj ?dk')"
    using assms(1) by (rule field_set_data)
  moreover have "map_of ?dk' ''list'' = Some (JArr ?ys)"
    by (simp add: map_of_obj_set)
  moreover have "int (length ?ys) = min s (max 0 (int (length xs) - (p - 1) * s))"
    using assms(3,4) by (rule length_slice_page)
  moreover have "map_of ?dk' ''total'' = Some (or_else (map_of dk1 ''total'') (JNum (int (length xs))))"
    by (simp add: map_of_obj_set)
  moreover have "map_of ?dk' ''page'' = Some (JNum p)" "map_of ?dk' ''pageSize'' = Some (JNum s)"
    by (simp_all add: map_of_obj_set)
  ultimately show ?thesis by blast
qed

text \<open>
  C3, as the claim states it, fails in its second half: \<open>total\<close> is the manifest's own
  \<open>data.total\<close> when that is truthy, and the length of the list only otherwise. A
  manifest of three items that declares \<open>total: 50\<close> comes back, on page 2 of size 2,
  with one item and \<open>total: 50\<close>.
\<close>

theorem getComponentList_total_from_manifest:
  \<open>fetch example_platform github_up example_env second_page_request =
     ([Fetch (fetch_url
         ''https://raw.githubusercontent.com/gamehublite/gamehub_api/main/components/drivers_manifest'')],
      Ok \<lparr>resp_status = 200,
          resp_headers = (''Content-Type'', ''application/json'') # corsHeaders,
          resp_body = ''{"data":{"list":[3],"total":50,"page":2,"pageSize":2}}''\<rparr>)\<close>
  by code_simp

text \<open>
  C3, amended. For every POST to \<open>/simulator/v2/getComponentList\<close> that the
  interception passes on, with an accepted \<open>type\<close>, a page \<open>p \<ge> 1\<close> and a page size
  \<open>s \<ge> 1\<close> (given, or the defaults 1 and 10), when the manifest fetched with success
  holds an array of length \<open>L\<close> (under \<open>data.components\<close>, or under \<open>data.list\<close> when
  there is no truthy \<open>components\<close>), the handler answers 200 with a \<open>data.list\<close> of exactly
  \<open>min(s, max(0, L - (p-1)*s))\<close> items, \<open>data.page = p\<close>, \<open>data.pageSize = s\<close>, and a
  \<open>data.total\<close> that is the manifest's own \<open>data.total\<close> when that is truthy and \<open>L\<close>
  otherwise.
\<close>

theorem getComponentList_pagination:
  assumes "req_method request = ''POST''"
    and "req_pathname request = ''/simulator/v2/getComponentList''"
    and "intercept P W E request = (evs, Ok request')"
    and "JSON_parse P (req_body request') = Inr body"
    and "body \<noteq> JNull"
    and "valid_type P (field body ''type'') = Ok (Some manifest)"
    and "or_else (field body ''page'') (JNum 1) = JNum p" and "1 \<le> p"
    and "or_else (field body ''page_size'') (JNum 10) = JNum s" and "1 \<le> s"
    and "net W (fetch_url (GITHUB_BASE @ manifest)) = Inr response"
    and "ok response"
    and "JSON_parse P (up_body response) = Inr manifestData"
    and "field manifestData ''data'' = Some (JObj dk)"
    and "map_of dk ''components'' = Some (JArr xs) \<or>
         ((map_of dk ''components'' = None \<or>
           (\<exists>c. map_of dk ''components'' = Some c \<and> \<not> truthy c)) \<and>
          map_of dk ''list'' = Some (JArr xs))"
  shows "\<exists>paged dk' ys.
           fetch P W E request =
             (evs @ [Fetch (fetch_url (GITHUB_BASE @ manifest))],
              Ok \<lparr>resp_status = 200,
                  resp_headers = (''Content-Type'', ''application/json'') # corsHeaders,
                  resp_body = JSON_stringify P paged\<rparr>) \<and>
           field paged ''data'' = Some (JObj dk') \<and>
           map_of dk' ''list'' = Some (JArr ys) \<and>
           int (length ys) = min s (max 0 (int (length xs) - (p - 1) * s)) \<and>
           map_of dk' ''total'' = Some (or_else (map_of dk ''total'') (JNum (int (length xs)))) \<and>
           map_of dk' ''page'' = Some (JNum p) \<and>
           map_of dk' ''pageSize'' = Some (JNum s)"
proof -
  have k: "req_method request' = ''POST''"
    "req_pathname request' = ''/simulator/v2/getComponentList''"
    using intercept_keeps [OF assms(3)] assms(1,2) by simp_all
  obtain renamed dk1 where r: "rename_components manifestData = Ok renamed"
    "field renamed ''data'' = Some (JObj dk1)" "map_of dk1 ''list'' = Some (JArr xs)"
    "map_of dk1 ''total'' = map_of dk ''total''"
    using rename_components_list [OF assms(14,15)] by blast
  obtain paged dk' ys where p: "paginate renamed (JNum p) (JNum s) = Ok paged"
    "field paged ''data'' = Some (JObj dk')" "map_of dk' ''list'' = Some (JArr ys)"
    "int (length ys) = min s (max 0 (int (length xs) - (p - 1) * s))"
    "map_of dk' ''total'' = Some (or_else (map_of dk1 ''total'') (JNum (int (length xs))))"
    "map_of dk' ''page'' = Some (JNum p)" "map_of dk' ''pageSize'' = Some (JNum s)"
    using paginate_list [OF r(2,3) assms(8,10)] by blast
  have "simulator_v2_getComponentList P W request' =
          ([Fetch (fetch_url (GITHUB_BASE @ manifest))], Ok (json_response P 200 paged))"
    using assms(4,5,6,7,9,11,12,13) r(1) p(1)
    by (simp add: simulator_v2_getComponentList_def parse_json_def get_prop_def Let_def do_fetch_def)
  then have "pipeline P W E request =
          (evs @ [Fetch (fetch_url (GITHUB_BASE @ manifest))], Ok (json_response P 200 paged))"
    using assms(3) k by (simp add: pipeline_def dispatch_getComponentList)
  then have "fetch P W E request =
          (evs @ [Fetch (fetch_url (GITHUB_BASE @ manifest))], Ok (json_response P 200 paged))"
    using assms(1) by (simp add: fetch_def)
  then show ?thesis using p(2-7) r(4) by (auto simp: json_response_def)
qed

theorem getComponentList_pagination_witness:
  "\<exists>paged dk' ys.
     fetch example_platform github_up example_env second_page_request =
       ([] @ [Fetch (fetch_url (GITHUB_BASE @ ''/components/drivers_manifest''))],
        Ok \<lparr>resp_status = 200,
            resp_headers = (''Content-Type'', ''application/json'') # corsHeaders,
            resp_body = JSON_stringify example_platform paged\<rparr>) \<and>
     field paged ''data'' = Some (JObj dk') \<and>
     map_of dk' ''list'' = Some (JArr ys) \<and>
     int (length ys) = min 2 (max 0 (int (length [JNum 1, JNum 2, JNum 3]) - (2 - 1) * 2)) \<and>
     map_of dk' ''total''
       = Some (or_else (map_of [(''list'', JArr [JNum 1, JNum 2, JNum 3]), (''total'', JNum 50)] ''total'')
                 (JNum (int (length [JNum 1, JNum 2, JNum 3])))) \<and>
     map_of dk' ''page'' = Some (JNum 2) \<and>
     map_of dk' ''pageSize'' = Some (JNum 2)"
proof -
  let ?body = "JObj [(''type'', JNum 2), (''page'', JNum 2), (''page_size'', JNum 2)]"
  let ?dk = "[(''list'', JArr [JNum 1, JNum 2, JNum 3]), (''total'', JNum 50)]"
  have h1: "req_method second_page_request = ''POST''" by code_simp
  have h2: "req_pathname second_page_request = ''/simulator/v2/getComponentList''" by code_simp
  have h3: "intercept example_platform github_up example_env second_page_request
              = ([], Ok second_page_request)"
    by code_simp
  have h4: "JSON_parse example_platform (req_body second_page_request) = Inr ?body"
    by code_simp
  have h5: "?body \<noteq> JNull" by simp
  have h6: "valid_type example_platform (field ?body ''type'')
              = Ok (Some ''/components/drivers_manifest'')"
    by code_simp
  have h7: "or_else (field ?body ''page'') (JNum 1) = JNum 2" by simp
  have h9: "or_else (field ?body ''page_size'') (JNum 10) = JNum 2" by simp
  have h11: "net github_up (fetch_url (GITHUB_BASE @ ''/components/drivers_manifest''))
               = Inr drivers_manifest"
    by code_simp
  have h12: "ok drivers_manifest" by code_simp
  have h13: "JSON_parse example_platform (up_body drivers_manifest) = Inr (JObj [(''data'', JObj ?dk)])"
    by code_simp
  have h14: "field (JObj [(''data'', JObj ?dk)]) ''data'' = Some (JObj ?dk)" by simp
  have h15: "map_of ?dk ''components'' = Some (JArr [JNum 1, JNum 2, JNum 3]) \<or>
         ((map_of ?dk ''components'' = None \<or>
           (\<exists>c. map_of ?dk ''components'' = Some c \<and> \<not> truthy c)) \<and>
          map_of ?dk ''list'' = Some (JArr [JNum 1, JNum 2, JNum 3]))"
    by simp
  have p: "(1::int) \<le> 2" by simp
  show ?thesis
    by (rule getComponentList_pagination [OF h1 h2 h3 h4 h5 h6 h7 p h9 p h11 h12 h13 h14 h15])
qed

section \<open>The sanitized script request\<close>

lemma dispatch_executeScript:
  "req_pathname r = ''/simulator/executeScript'' \<Longrightarrow> req_method r = ''POST'' \<Longrightarrow>
   dispatch P W r = simulator_executeScript P W r"
  by (simp add: dispatch_def)

lemma sanitizedBody_keys:
  "map fst (defined_props (sanitizedBody b)) =
     filter (\<lambda>k. k \<notin> set copied_fields \<or> field b k \<noteq> None) sanitized_fields"
  by (cases "field b ''gpu_vendor''"; cases "field b ''token''"; cases "field b ''sign''";
      cases "field b ''time''")
     (simp_all add: sanitizedBody_def sanitized_fields_def copied_fields_def)

lemma sanitizedBody_agree:
  assumes "\<forall>k \<in> {''gpu_vendor'', ''game_type'', ''token'', ''sign'', ''time''}. field b1 k = field b2 k"
  shows "sanitizedBody b1 = sanitizedBody b2"
  using assms by (simp add: sanitizedBody_def)

lemma fst_fetch:
  assumes "req_method request \<noteq> ''OPTIONS''"
    and "intercept P W E request = (evs, Ok request')"
    and "fst (dispatch P W request') = evs'"
  shows "fst (fetch P W E request) = evs @ evs'"
proof -
  obtain r where "dispatch P W request' = (evs', r)"
    using assms(3) by (cases "dispatch P W request'") simp
  then have "pipeline P W E request = (evs @ evs', r)"
    using assms(2) by (simp add: pipeline_def)
  then show ?thesis
    using assms(1) by (cases r) (simp_all add: fetch_def)
qed

lemma executeScript_events:
  assumes "req_method request = ''POST''"
    and "req_pathname request = ''/simulator/executeScript''"
    and "intercept P W E request = (evs, Ok request')"
    and "JSON_parse P (req_body request') = Inr b"
    and "b \<noteq> JNull"
    and "template (field b ''gpu_vendor'') = Ok logged"
  shows "fst (fetch P W E request) =
           evs @ [Fetch \<lparr>f_url = ''https://landscape-api.vgabc.com/simulator/executeScript'',
                         f_method = ''POST'',
                         f_headers = [(''Content-Type'', ''application/json'')],
                         f_body = Some (JSON_stringify P (JObj (defined_props (sanitizedBody b)))),
                         f_cf = None\<rparr>]"
proof -
  have k: "req_method request' = ''POST''" "req_pathname request' = ''/simulator/executeScript''"
    using intercept_keeps [OF assms(3)] assms(1,2) by simp_all
  have "fst (simulator_executeScript P W request') =
          [Fetch \<lparr>f_url = ''https://landscape-api.vgabc.com/simulator/executeScript'',
                  f_method = ''POST'',
                  f_headers = [(''Content-Type'', ''application/json'')],
                  f_body = Some (JSON_stringify P (JObj (defined_props (sanitizedBody b)))),
                  f_cf = None\<rparr>]"
    using assms(4,5,6)
    by (simp add: simulator_executeScript_def parse_json_def get_prop_def do_fetch_def
        stringify_literal_def)
  then have d: "fst (dispatch P W request') =
          [Fetch \<lparr>f_url = ''https://landscape-api.vgabc.com/simulator/executeScript'',
                  f_method = ''POST'',
                  f_headers = [(''Content-Type'', ''application/json'')],
                  f_body = Some (JSON_stringify P (JObj (defined_props (sanitizedBody b)))),
                  f_cf = None\<rparr>]"
    using k by (simp add: dispatch_executeScript)
  have "req_method request \<noteq> ''OPTIONS''" using assms(1) by simp
  from fst_fetch [OF this assms(3) d] show ?thesis .
qed

text \<open>
  C5, as the claim states it, fails in both halves. \<open>JSON.stringify\<close> leaves out a
  property whose value is \<open>undefined\<close>, so a field that the request body lacks is
  missing from the forwarded body too: for the body \<open>{}\<close> the forwarded text has six
  of the ten fields. And the route reads the body that the interception passes on: when
  the input body carries the sentinel, its \<open>sign\<close> has been computed again over all of
  its fields. Two input bodies that agree on \<open>gpu_vendor\<close>, \<open>game_type\<close>, \<open>token\<close>,
  \<open>sign\<close> and \<open>time\<close> and differ in \<open>device_model\<close> are forwarded with different
  signatures. Nothing at all is forwarded when \<open>gpu_vendor\<close> has no string form: the
  line written to the log before the fetch throws, and the answer is the 500 of the
  error boundary.
\<close>

theorem executeScript_missing_fields_dropped:
  \<open>fst (fetch example_platform metadata_up example_env empty_script_request) =
     [Fetch \<lparr>f_url = ''https://landscape-api.vgabc.com/simulator/executeScript'',
             f_method = ''POST'',
             f_headers = [(''Content-Type'', ''application/json'')],
             f_body = Some (''{"gpu_version":0,"gpu_device_name":"Generic Device","game_type":2,'' @
                            ''"game_id":"0","clientparams":'' @
                            ''"5.1.0|0|en|Generic|1920*1080|app|app|generic|||||||||com.app|Generic|generic",'' @
                            ''"gpu_system_driver_version":0}''),
             f_cf = None\<rparr>] \<and>
   JSON_parse example_platform (req_body pixel8_sentinel_request) =
     Inr (JObj [(''gpu_vendor'', JStr ''Adreno''), (''token'', JStr ''fake-token''),
                (''device_model'', JStr ''Pixel 8'')]) \<and>
   JSON_parse example_platform (req_body pixel9_sentinel_request) =
     Inr (JObj [(''gpu_vendor'', JStr ''Adreno''), (''token'', JStr ''fake-token''),
                (''device_model'', JStr ''Pixel 9'')]) \<and>
   fst (fetch example_platform script_token_cached example_env pixel8_sentinel_request) =
     [CacheMatch ''https://token-refresher.example/token-cached'',
      Fetch \<lparr>f_url = ''https://landscape-api.vgabc.com/simulator/executeScript'',
             f_method = ''POST'',
             f_headers = [(''Content-Type'', ''application/json'')],
             f_body = Some (''{"gpu_vendor":"Adreno","gpu_version":0,"gpu_device_name":"Generic Device",'' @
                            ''"game_type":2,"token":"REAL","game_id":"0","sign":'' @
                            ''"d41d:device_model=pixel 8&gpu_vendor=adreno&token=real&all-egg-shell-y7zatudk",'' @
                            ''"clientparams":'' @
                            ''"5.1.0|0|en|Generic|1920*1080|app|app|generic|||||||||com.app|Generic|generic",'' @
                            ''"gpu_system_driver_version":0}''),
             f_cf = None\<rparr>] \<and>
   fst (fetch example_platform script_token_cached example_env pixel9_sentinel_request) =
     [CacheMatch ''https://token-refresher.example/token-cached'',
      Fetch \<lparr>f_url = ''https://landscape-api.vgabc.com/simulator/executeScript'',
             f_method = ''POST'',
             f_headers = [(''Content-Type'', ''application/json'')],
             f_body = Some (''{"gpu_vendor":"Adreno","gpu_version":0,"gpu_device_name":"Generic Device",'' @
                            ''"game_type":2,"token":"REAL","game_id":"0","sign":'' @
                            ''"d41d:device_model=pixel 9&gpu_vendor=adreno&token=real&all-egg-shell-y7zatudk",'' @
                            ''"clientparams":'' @
                            ''"5.1.0|0|en|Generic|1920*1080|app|app|generic|||||||||com.app|Generic|generic",'' @
                            ''"gpu_system_driver_version":0}''),
             f_cf = None\<rparr>] \<and>
   fetch example_platform metadata_up example_env object_vendor_request =
     ([],
      Ok \<lparr>resp_status = 500,
          resp_headers = (''Content-Type'', ''application/json'') # corsHeaders,
          resp_body = ''{"code":500,"msg":"Error: Cannot convert object to primitive value"}''\<rparr>)\<close>
  by code_simp

text \<open>
  C5, amended. For every POST to \<open>/simulator/executeScript\<close> that the interception
  passes on with a body that parses to a value other than \<open>null\<close> and whose
  \<open>gpu_vendor\<close> has a string form, the one fetch of the route goes to the metadata service with the single header
  \<open>Content-Type: application/json\<close> and, as its body, the JSON text of an object whose
  fields are those of the fixed sanitized set, in its order, without the ones among
  \<open>gpu_vendor\<close>, \<open>token\<close>, \<open>sign\<close> and \<open>time\<close> that the passed-on body lacks. Two
  requests whose bodies, as the interception passes them on to the route, agree on
  \<open>gpu_vendor\<close>, \<open>game_type\<close>, \<open>token\<close>, \<open>sign\<close> and \<open>time\<close> cause the same fetch,
  byte for byte.
\<close>

theorem executeScript_sanitized:
  assumes "req_method r1 = ''POST''" and "req_pathname r1 = ''/simulator/executeScript''"
    and "req_method r2 = ''POST''" and "req_pathname r2 = ''/simulator/executeScript''"
    and "intercept P W E r1 = (evs1, Ok r1')" and "intercept P W E r2 = (evs2, Ok r2')"
    and "JSON_parse P (req_body r1') = Inr b1" and "b1 \<noteq> JNull"
    and "JSON_parse P (req_body r2') = Inr b2" and "b2 \<noteq> JNull"
    and "template (field b1 ''gpu_vendor'') = Ok logged"
    and "\<forall>k \<in> {''gpu_vendor'', ''game_type'', ''token'', ''sign'', ''time''}. field b1 k = field b2 k"
  shows "\<exists>kvs call.
           call = \<lparr>f_url = ''https://landscape-api.vgabc.com/simulator/executeScript'',
                   f_method = ''POST'',
                   f_headers = [(''Content-Type'', ''application/json'')],
                   f_body = Some (JSON_stringify P (JObj kvs)),
                   f_cf = None\<rparr> \<and>
           fst (fetch P W E r1) = evs1 @ [Fetch call] \<and>
           fst (fetch P W E r2) = evs2 @ [Fetch call] \<and>
           map fst kvs = filter (\<lambda>k. k \<notin> set copied_fields \<or> field b1 k \<noteq> None) sanitized_fields"
proof -
  have e: "sanitizedBody b1 = sanitizedBody b2"
    using assms(12) by (rule sanitizedBody_agree)
  have l: "template (field b2 ''gpu_vendor'') = Ok logged"
    using assms(11,12) by simp
  let ?kvs = "defined_props (sanitizedBody b1)"
  let ?call = "\<lparr>f_url = ''https://landscape-api.vgabc.com/simulator/executeScript'',
                   f_method = ''POST'',
                   f_headers = [(''Content-Type'', ''application/json'')],
                   f_body = Some (JSON_stringify P (JObj ?kvs)),
                   f_cf = None\<rparr>"
  have 1: "fst (fetch P W E r1) = evs1 @ [Fetch ?call]"
    using executeScript_events [OF assms(1,2,5,7,8,11)] .
  have 2: "fst (fetch P W E r2) = evs2 @ [Fetch ?call]"
    using executeScript_events [OF assms(3,4,6,9,10) l] e by simp
  have 3: "map fst ?kvs = filter (\<lambda>k. k \<notin> set copied_fields \<or> field b1 k \<noteq> None) sanitized_fields"
    by (rule sanitizedBody_keys)
  from 1 2 3 show ?thesis by blast
qed

theorem executeScript_sanitized_witness:
  "\<exists>kvs call.
     call = \<lparr>f_url = ''https://landscape-api.vgabc.com/simulator/executeScript'',
             f_method = ''POST'',
             f_headers = [(''Content-Type'', ''application/json'')],
             f_body = Some (JSON_stringify example_platform (JObj kvs)),
             f_cf = None\<rparr> \<and>
     fst (fetch example_platform metadata_up example_env pixel_script_request) = [] @ [Fetch call] \<and>
     fst (fetch example_platform metadata_up example_env driver_script_request) = [] @ [Fetch call] \<and>
     map fst kvs =
       filter (\<lambda>k. k \<notin> set copied_fields \<or>
                   field (JObj [(''gpu_vendor'', JStr ''Adreno''), (''token'', JStr ''t''),
                                (''device_model'', JStr ''Pixel 8'')]) k \<noteq> None)
         sanitized_fields"
proof -
  let ?b1 = "JObj [(''gpu_vendor'', JStr ''Adreno''), (''token'', JStr ''t''),
                   (''device_model'', JStr ''Pixel 8'')]"
  let ?b2 = "JObj [(''gpu_driver'', JNum 512), (''token'', JStr ''t''),
                   (''gpu_vendor'', JStr ''Adreno'')]"
  have h1: "req_method pixel_script_request = ''POST''" by code_simp
  have h2: "req_pathname pixel_script_request = ''/simulator/executeScript''" by code_simp
  have h3: "req_method driver_script_request = ''POST''" by code_simp
  have h4: "req_pathname driver_script_request = ''/simulator/executeScript''" by code_simp
  have h5: "intercept example_platform metadata_up example_env pixel_script_request
              = ([], Ok pixel_script_request)"
    by code_simp
  have h6: "intercept example_platform metadata_up example_env driver_script_request
              = ([], Ok driver_script_request)"
    by code_simp
  have h7: "JSON_parse example_platform (req_body pixel_script_request) = Inr ?b1" by code_simp
  have h9: "JSON_parse example_platform (req_body driver_script_request) = Inr ?b2" by code_simp
  have n1: "?b1 \<noteq> JNull" and n2: "?b2 \<noteq> JNull" by simp_all
  have h10: "template (field ?b1 ''gpu_vendor'') = Ok ''Adreno''" by simp
  have h11: "\<forall>k \<in> {''gpu_vendor'', ''game_type'', ''token'', ''sign'', ''time''}.
               field ?b1 k = field ?b2 k"
    by simp
  show ?thesis
    by (rule executeScript_sanitized [OF h1 h2 h3 h4 h5 h6 h7 n1 h9 n2 h10 h11])
qed

section \<open>The fallback proxy\<close>

lemma dispatch_fallback:
  "(req_pathname r, req_method r) \<notin> set routes \<Longrightarrow> dispatch P W r = fallback P W r"
  unfolding dispatch_def routes_def Let_def by (simp (no_asm_use)) blast

lemma lower_char:
  "CHR ''A'' \<le> c \<Longrightarrow> c \<le> CHR ''Z'' \<Longrightarrow> \<not> (char_of (of_char c + (32::nat)) \<le> CHR ''Z'')"
  by (simp add: less_eq_char_def)

lemma toLowerCase_idem: "toLowerCase (toLowerCase s) = toLowerCase s"
  by (induction s) (auto simp: toLowerCase_def lower_char)


lemma header_values_lower: "header_values hs (toLowerCase n) = header_values hs n"
  by (simp add: header_values_def toLowerCase_idem)

lemma header_values_empty_iff:
  "header_values hs n = [] \<longleftrightarrow> toLowerCase n \<notin> set (map (\<lambda>h. toLowerCase (fst h)) hs)"
  by (force simp: header_values_def filter_empty_conv)


lemma obj_set_keys: "fst ` set (obj_set k v t) = insert k (fst ` set t)"
  by (induction t) auto

lemma obj_assign_keys: "fst ` set (obj_assign t src) = fst ` set t \<union> fst ` set src"
proof (induction src arbitrary: t)
  case Nil
  then show ?case by (simp add: obj_assign_def)
next
  case (Cons p src)
  have "obj_assign t (p # src) = obj_assign (obj_set (fst p) (snd p) t) src"
    by (simp add: obj_assign_def)
  then show ?case using Cons.IH [of "obj_set (fst p) (snd p) t"] by (simp add: obj_set_keys)
qed

lemma distinct_obj_set: "distinct (map fst t) \<Longrightarrow> distinct (map fst (obj_set k v t))"
proof (induction t)
  case Nil
  then show ?case by simp
next
  case (Cons p t)
  then show ?case using obj_set_keys [of k v t] by (auto simp: image_iff)
qed

lemma distinct_obj_assign: "distinct (map fst t) \<Longrightarrow> distinct (map fst (obj_assign t src))"
proof (induction src arbitrary: t)
  case Nil
  then show ?case by (simp add: obj_assign_def)
next
  case (Cons p src)
  have "obj_assign t (p # src) = obj_assign (obj_set (fst p) (snd p) t) src"
    by (simp add: obj_assign_def)
  then show ?case using Cons.IH [OF distinct_obj_set [OF Cons.prems]] by simp
qed

lemma map_of_obj_assign:
  "map_of (obj_assign t src) k = (case map_of (rev src) k of Some v \<Rightarrow> Some v | None \<Rightarrow> map_of t k)"
proof (induction src arbitrary: t)
  case Nil
  then show ?case by (simp add: obj_assign_def)
next
  case (Cons p src)
  have "obj_assign t (p # src) = obj_assign (obj_set (fst p) (snd p) t) src"
    by (simp add: obj_assign_def)
  then show ?case
    using Cons.IH [of "obj_set (fst p) (snd p) t"]
    by (cases p) (auto simp: map_of_obj_set map_add_def split: option.splits)
qed

lemma header_values_distinct_lower:
  assumes "distinct (map fst t)" and "\<forall>k \<in> fst ` set t. toLowerCase k = k"
  shows "header_values t n = (case map_of t (toLowerCase n) of None \<Rightarrow> [] | Some v \<Rightarrow> [v])"
  using assms
proof (induction t)
  case Nil
  then show ?case by (simp add: header_values_def)
next
  case (Cons p t)
  obtain k v where p: "p = (k, v)" by (cases p)
  have IH: "header_values t n = (case map_of t (toLowerCase n) of None \<Rightarrow> [] | Some v \<Rightarrow> [v])"
    using Cons by simp
  have lk: "toLowerCase k = k" using Cons.prems(2) p by simp
  show ?case
  proof (cases "k = toLowerCase n")
    case True
    then have "map_of t (toLowerCase n) = None"
      using Cons.prems(1) p by (simp add: map_of_eq_None_iff)
    with IH have "header_values t n = []" by simp
    then show ?thesis using True lk p by (simp add: header_values_def)
  next
    case False
    then show ?thesis using IH lk p by (auto simp: header_values_def)
  qed
qed

lemma map_of_rev_concat:
  assumes "\<And>x. fst ` set (f x) \<subseteq> {x}"
  shows "map_of (rev (concat (map f xs))) k =
           (if k \<in> set xs then map_of (rev (f k)) k else None)"
proof (induction xs)
  case Nil
  then show ?case by simp
next
  case (Cons x xs)
  have n: "k \<noteq> x \<Longrightarrow> map_of (rev (f x)) k = None"
    using assms [of x] by (auto simp: map_of_eq_None_iff)
  show ?case using Cons n by (auto simp: map_add_def split: option.splits)
qed

lemma Headers_entries_keys:
  assumes "k \<in> fst ` set (Headers_entries hs)"
  shows "toLowerCase k = k"
proof -
  from assms obtain h where "h \<in> set hs" "k = toLowerCase (fst h)"
    by (auto simp: Headers_entries_def split: if_splits)
  then show ?thesis by (simp add: toLowerCase_idem)
qed

lemma map_of_Headers_entries:
  assumes "k \<noteq> ''set-cookie''"
  shows "map_of (rev (Headers_entries hs)) k =
           (if k \<in> set (map (\<lambda>h. toLowerCase (fst h)) hs)
            then Some (join '', '' (header_values hs k)) else None)"
proof -
  let ?f = "\<lambda>name. if name = ''set-cookie'' then map (Pair name) (header_values hs name)
                    else [(name, join '', '' (header_values hs name))]"
  have "\<And>x. fst ` set (?f x) \<subseteq> {x}" by auto
  from map_of_rev_concat [of ?f, OF this] show ?thesis
    using assms by (simp add: Headers_entries_def)
qed

lemma fromEntries_header_values:
  assumes "toLowerCase n \<noteq> ''set-cookie''"
  shows "header_values (obj_assign [] (Headers_entries hs)) n =
           (if header_values hs n = [] then [] else [join '', '' (header_values hs n)])"
proof -
  let ?t = "obj_assign [] (Headers_entries hs)"
  have d: "distinct (map fst ?t)" by (rule distinct_obj_assign) simp
  have l: "\<forall>k \<in> fst ` set ?t. toLowerCase k = k"
    using Headers_entries_keys by (auto simp: obj_assign_keys)
  have m: "map_of ?t (toLowerCase n) = map_of (rev (Headers_entries hs)) (toLowerCase n)"
    by (simp add: map_of_obj_assign split: option.splits)
  show ?thesis
    unfolding header_values_distinct_lower [OF d l] m map_of_Headers_entries [OF assms]
    by (simp add: header_values_lower header_values_empty_iff)
qed

lemma fromEntries_header_get:
  assumes "toLowerCase n \<noteq> ''set-cookie''"
  shows "header_get (obj_assign [] (Headers_entries hs)) n = header_get hs n"
  by (simp add: header_get_def fromEntries_header_values [OF assms])








section \<open>A sentinel in the headers only\<close>

text \<open>
  For a POST with a JSON content type the interception keeps the body text whenever the
  sentinel is not in it: the rebuilt request is given \<open>bodyText\<close>.
\<close>

lemma intercept_json_post_keeps_body:
  assumes "req_method request = ''POST''"
    and "opt_includes (header_get (req_headers request) ''Content-Type'') ''application/json''"
    and "\<not> str_includes (req_body request) ''fake-token''"
    and "intercept P W E request = (evs, Ok request')"
  shows "req_body request' = req_body request"
proof (cases "request' = request")
  case True
  then show ?thesis by simp
next
  case False
  with assms(4) obtain a t tok where
    "substitute P request a t
       (if req_method request = ''POST'' \<and>
           opt_includes (header_get (req_headers request) ''Content-Type'') ''application/json''
        then req_body request else []) tok = Ok request'"
    by (auto simp: intercept_def Let_def split: if_splits prod.splits result.splits option.splits)
  with assms(1,2,3) show ?thesis
    by (auto simp: substitute_def Let_def on_ok_Ok_iff split: if_splits)
qed

text \<open>
  C2 fails on the code. The body text is read only from a POST with a JSON content
  type; for any other request \<open>bodyText\<close> stays empty, and when a header carries the
  sentinel the request is rebuilt with no body at all. A POST with a \<open>text/plain\<close> body
  and the sentinel in its \<open>token\<close> header reaches its route with the real token in the
  header and an empty body, which the route forwards.
\<close>

theorem header_sentinel_drops_unread_body:
  "fetch example_platform token_cached example_env form_request =
     ([CacheMatch ''https://token-refresher.example/token-cached'',
       Fetch \<lparr>f_url = ''https://landscape-api.vgabc.com/card/getGameDetail'',
              f_method = ''POST'',
              f_headers = [(''content-type'', ''text/plain''), (''token'', ''REAL'')],
              f_body = Some '''',
              f_cf = None\<rparr>],
      Ok \<lparr>resp_status = 200,
          resp_headers = (''Content-Type'', ''application/json'') # corsHeaders,
          resp_body = ''{}''\<rparr>) \<and>
   intercept example_platform token_cached example_env form_request =
     ([CacheMatch ''https://token-refresher.example/token-cached''],
      Ok (form_request\<lparr>req_headers := [(''content-type'', ''text/plain''), (''token'', ''REAL'')],
                        req_body := ''''\<rparr>)) \<and>
   req_body form_request = ''game_id=1''"
  by code_simp

section \<open>Where the errors come from\<close>

text \<open>
  Steps that throw, each ending in the \<open>Throw\<close> that the handler's \<open>catch\<close> turns into
  the 500 answer: a body that \<open>request.json()\<close> cannot parse, a \<open>null\<close> body whose
  property is read, a fetch that fails, in a route or in the fallback proxy, and a
  body with the sentinel (and none in the headers) that \<open>JSON.parse\<close> rejects during
  the interception.
\<close>

lemma unparsable_body_throws:
  "JSON_parse P (req_body r) = Inl m \<Longrightarrow> card_getNewsList P W r = ([], Throw m)"
  by (simp add: card_getNewsList_def parse_json_def)

lemma null_body_throws:
  "JSON_parse P (req_body r) = Inr JNull \<Longrightarrow>
   card_getNewsGuideDetail P W r =
     ([], Throw (''Cannot read properties of null (reading '' @ [CHR 0x27] @ ''id'' @ [CHR 0x27] @ '')''))"
  by (simp add: card_getNewsGuideDetail_def parse_json_def get_prop_def)

lemma failed_fetch_throws:
  "net W call = Inl m \<Longrightarrow> do_fetch W call k = ([Fetch call], Throw m)"
  by (simp add: do_fetch_def)

lemma fallback_failed_fetch_throws:
  assumes "(req_pathname r, req_method r) \<notin> set routes"
    and "net W ((fetch_url (GITHUB_BASE @ req_pathname r))\<lparr>f_cf := Some (300, True)\<rparr>) = Inl m"
  shows "dispatch P W r =
           ([Fetch ((fetch_url (GITHUB_BASE @ req_pathname r))\<lparr>f_cf := Some (300, True)\<rparr>)], Throw m)"
  using assms by (simp add: dispatch_fallback fallback_def Let_def failed_fetch_throws)

lemma fallback_refused_status_throws:
  assumes "(req_pathname r, req_method r) \<notin> set routes"
    and "net W ((fetch_url (GITHUB_BASE @ req_pathname r))\<lparr>f_cf := Some (300, True)\<rparr>) = Inr up"
    and "up_status up < 200 \<or> 599 < up_status up"
  shows "dispatch P W r =
           ([Fetch ((fetch_url (GITHUB_BASE @ req_pathname r))\<lparr>f_cf := Some (300, True)\<rparr>)],
            Throw (invalid_status P (up_status up)))"
  using assms by (auto simp: dispatch_fallback fallback_def Let_def do_fetch_def)

lemma sentinel_in_unparsable_body_throws:
  assumes "req_method r = ''POST''"
    and "opt_includes (header_get (req_headers r) ''Content-Type'') ''application/json''"
    and "str_includes (req_body r) ''fake-token''"
    and "\<not> opt_includes (header_get (req_headers r) ''Authorization'') ''fake-token''"
    and "header_get (req_headers r) ''token'' \<noteq> Some ''fake-token''"
    and "resolve_token P W E = (evs, Ok (Some tok))" and "truthy tok"
    and "JSON_parse P (req_body r) = Inl m"
  shows "intercept P W E r = (evs, Throw m)"
proof -
  have "req_body r \<noteq> []" using assms(3) by auto
  then show ?thesis
    using assms
    by (cases "header_get (req_headers r) ''Authorization''")
       (simp_all add: intercept_def substitute_def Let_def parse_json_def)
qed

end
